theory Spec2Isabelle
  imports Complex_Main "HOL-Library.Finite_Map" "HOL-Library.Word"
begin

section \<open>Conventions of the embedding\<close>

text \<open>
  The TypeScript sources are embedded function by function.  A method that mutates
  \<^verbatim>\<open>this\<close> takes the object and returns the updated one; a method that
  both returns a value and mutates returns a pair.

  \<^item> A JavaScript \<^verbatim>\<open>number\<close> that holds a parameter value, a weight or a
    time is a \<^typ>\<open>real\<close>: the arithmetic is the exact arithmetic that the
    source's formulas denote, without the rounding of IEEE doubles and of
    \<^verbatim>\<open>Float32Array\<close> cells.
  \<^item> A \<^verbatim>\<open>number\<close> that is an array index or a count is a \<^typ>\<open>nat\<close>.
  \<^item> A plain object used as a dictionary (\<^verbatim>\<open>Record<K, V>\<close>, created as
    \<^verbatim>\<open>{}\<close>) is a finite map; \<^verbatim>\<open>k in obj\<close> is membership of its
    own keys and \<^verbatim>\<open>Object.keys(obj).length\<close> is the number of its keys.
    Keys inherited from \<^verbatim>\<open>Object.prototype\<close> are not modelled.
  \<^item> A typed array is a list.  A write beyond its end is dropped by JavaScript, which is
    what \<^term>\<open>xs[i := v]\<close> does; a read beyond its end gives
    \<^verbatim>\<open>undefined\<close>, and every comparison with \<^verbatim>\<open>undefined\<close> is false:
    the guards \<open>i < length xs\<close> in the comparisons below write that out.  Where the
    source uses the cell it read as a number (the stored value of a parameter, a saved
    value, a colour component), the model reads the list with \<^term>\<open>xs ! i\<close>, and the
    theorems speak about such a value only for an index within the list.
  \<^item> \<^verbatim>\<open>CSM_ASSERT\<close> only logs; it has no effect on the state.
\<close>

section \<open>CubismModel\<close>

subsection \<open>Data\<close>

record CubismTextureColor =
  R :: real
  G :: real
  B :: real
  A :: real

record DrawableColorData =
  isOverwritten :: bool
  Color :: CubismTextureColor

text \<open>
  The result of \<^verbatim>\<open>partCount + this._notExistPartId.length\<close>: a number that is
  either an index or \<^verbatim>\<open>NaN\<close>.
\<close>

datatype jsindex = Index nat | NaN

text \<open>
  The part of \<^verbatim>\<open>Live2DCubismCore.Model\<close> that the framework reads: the counts and
  the arrays of the loaded model.
\<close>

record CoreModel =
  core_parameters_count :: nat
  core_parameters_ids :: "string list"
  core_parameters_values :: "real list"
  core_parameters_minimumValues :: "real list"
  core_parameters_maximumValues :: "real list"
  core_parts_count :: nat
  core_parts_ids :: "string list"
  core_parts_opacities :: "real list"
  core_drawables_count :: nat
  core_drawables_ids :: "string list"
  core_drawables_multiplyColors :: "real list"
  core_drawables_screenColors :: "real list"

text \<open>
  The fields of \<^verbatim>\<open>CubismModel\<close>.  The fields \<open>parameters_*\<close>,
  \<open>parts_count\<close> and \<open>drawables_*\<close> are the ones read through
  \<^verbatim>\<open>this._model\<close>.  \<^verbatim>\<open>_parameterValues\<close> and
  \<^verbatim>\<open>_model.parameters.values\<close> are one and the same array (\<^verbatim>\<open>initialize\<close>
  assigns the reference), so the record has one field for both; likewise for
  \<^verbatim>\<open>_partOpacities\<close>.
\<close>

record CubismModel =
  parameters_count :: nat
  parameters_minimumValues :: "real list"
  parameters_maximumValues :: "real list"
  parts_count :: nat
  drawables_count :: nat
  drawables_multiplyColors :: "real list"
  drawables_screenColors :: "real list"
  notExistPartOpacities :: "(jsindex, real) fmap"
  notExistPartId :: "(string, jsindex) fmap"
  notExistParameterValues :: "(nat, real) fmap"
  notExistParameterId :: "(string, nat) fmap"
  savedParameters :: "real list"
  isOverwrittenModelMultiplyColors :: bool
  isOverwrittenModelScreenColors :: bool
  userMultiplyColors :: "DrawableColorData list"
  userScreenColors :: "DrawableColorData list"
  parameterValues :: "real list"
  partOpacities :: "real list"
  parameterIds :: "string list"
  partIds :: "string list"
  drawableIds :: "string list"

subsection \<open>Construction\<close>

text \<open>
  \<^verbatim>\<open>constructor\<close> followed by \<^verbatim>\<open>initialize\<close>: the identifier lists receive the
  first \<open>count\<close> identifiers of the core model, every drawable gets a multiply colour
  \<open>(1, 1, 1, 1)\<close> and a screen colour \<open>(0, 0, 0, 1)\<close> with both flags off, and the four
  dictionaries start empty.
\<close>

definition newCubismModel :: "CoreModel \<Rightarrow> CubismModel" where
  "newCubismModel core =
     \<lparr> parameters_count = core_parameters_count core,
       parameters_minimumValues = core_parameters_minimumValues core,
       parameters_maximumValues = core_parameters_maximumValues core,
       parts_count = core_parts_count core,
       drawables_count = core_drawables_count core,
       drawables_multiplyColors = core_drawables_multiplyColors core,
       drawables_screenColors = core_drawables_screenColors core,
       notExistPartOpacities = fmempty,
       notExistPartId = fmempty,
       notExistParameterValues = fmempty,
       notExistParameterId = fmempty,
       savedParameters = [],
       isOverwrittenModelMultiplyColors = False,
       isOverwrittenModelScreenColors = False,
       userMultiplyColors =
         replicate (core_drawables_count core)
           \<lparr> isOverwritten = False, Color = \<lparr> R = 1, G = 1, B = 1, A = 1 \<rparr> \<rparr>,
       userScreenColors =
         replicate (core_drawables_count core)
           \<lparr> isOverwritten = False, Color = \<lparr> R = 0, G = 0, B = 0, A = 1 \<rparr> \<rparr>,
       parameterValues = core_parameters_values core,
       partOpacities = core_parts_opacities core,
       parameterIds = take (core_parameters_count core) (core_parameters_ids core),
       partIds = take (core_parts_count core) (core_parts_ids core),
       drawableIds = take (core_drawables_count core) (core_drawables_ids core) \<rparr>"

subsection \<open>Parameter values\<close>

text \<open>\<^verbatim>\<open>getParameterValueByIndex\<close>: the shadow table first, the real array otherwise.\<close>

definition getParameterValueByIndex :: "nat \<Rightarrow> CubismModel \<Rightarrow> real" where
  "getParameterValueByIndex parameterIndex m =
     (case fmlookup (notExistParameterValues m) parameterIndex of
        Some v \<Rightarrow> v
      | None \<Rightarrow> parameterValues m ! parameterIndex)"

text \<open>
  \<^verbatim>\<open>setParameterValueByIndex\<close>.  For an index of the shadow table the new value is
  stored or interpolated and the method returns.  Otherwise \<open>v\<close> is first lowered to
  the maximum, then raised to the minimum, and only then stored (weight 1) or
  interpolated with the stored value.
\<close>

definition setParameterValueByIndex :: "nat \<Rightarrow> real \<Rightarrow> real \<Rightarrow> CubismModel \<Rightarrow> CubismModel" where
  "setParameterValueByIndex parameterIndex v weight m =
     (case fmlookup (notExistParameterValues m) parameterIndex of
        Some stored \<Rightarrow>
          m\<lparr> notExistParameterValues :=
               fmupd parameterIndex
                 (if weight = 1 then v else stored * (1 - weight) + v * weight)
                 (notExistParameterValues m) \<rparr>
      | None \<Rightarrow>
          (let v1 = (if parameterIndex < length (parameters_maximumValues m)
                        \<and> parameters_maximumValues m ! parameterIndex < v
                     then parameters_maximumValues m ! parameterIndex else v);
               v2 = (if parameterIndex < length (parameters_minimumValues m)
                        \<and> parameters_minimumValues m ! parameterIndex > v1
                     then parameters_minimumValues m ! parameterIndex else v1)
           in m\<lparr> parameterValues :=
                   (parameterValues m)
                     [parameterIndex :=
                        (if weight = 1 then v2
                         else parameterValues m ! parameterIndex * (1 - weight) + v2 * weight)] \<rparr>))"

text \<open>
  \<^verbatim>\<open>addParameterValueByIndex\<close> and \<^verbatim>\<open>multiplyParameterValueByIndex\<close> call the
  setter with its default weight 1.
\<close>

definition addParameterValueByIndex :: "nat \<Rightarrow> real \<Rightarrow> real \<Rightarrow> CubismModel \<Rightarrow> CubismModel" where
  "addParameterValueByIndex parameterIndex v weight m =
     setParameterValueByIndex parameterIndex
       (getParameterValueByIndex parameterIndex m + v * weight) 1 m"

definition multiplyParameterValueByIndex :: "nat \<Rightarrow> real \<Rightarrow> real \<Rightarrow> CubismModel \<Rightarrow> CubismModel" where
  "multiplyParameterValueByIndex parameterIndex v weight m =
     setParameterValueByIndex parameterIndex
       (getParameterValueByIndex parameterIndex m * (1 + (v - 1) * weight)) 1 m"

subsection \<open>Snapshot and restore\<close>

text \<open>
  The loop of \<^verbatim>\<open>saveParameters\<close>.  \<open>savedParameterCount\<close> is the length of
  \<^verbatim>\<open>_savedParameters\<close> read once before the loop.
\<close>

function saveParametersLoop :: "nat \<Rightarrow> nat \<Rightarrow> nat \<Rightarrow> real list \<Rightarrow> real list \<Rightarrow> real list" where
  "saveParametersLoop i parameterCount savedParameterCount vals saved =
     (if i < parameterCount
      then saveParametersLoop (Suc i) parameterCount savedParameterCount vals
             (if i < savedParameterCount then saved[i := vals ! i] else saved @ [vals ! i])
      else saved)"
  by pat_completeness auto
termination
  by (relation "measure (\<lambda>(i, parameterCount, savedParameterCount, vals, saved). parameterCount - i)") auto

declare saveParametersLoop.simps [simp del]

definition saveParameters :: "CubismModel \<Rightarrow> CubismModel" where
  "saveParameters m =
     m\<lparr> savedParameters :=
          saveParametersLoop 0 (parameters_count m) (length (savedParameters m))
            (parameterValues m) (savedParameters m) \<rparr>"

text \<open>The loop of \<^verbatim>\<open>loadParameters\<close>, over the smaller of the two counts.\<close>

function loadParametersLoop :: "nat \<Rightarrow> nat \<Rightarrow> real list \<Rightarrow> real list \<Rightarrow> real list" where
  "loadParametersLoop i parameterCount saved vals =
     (if i < parameterCount
      then loadParametersLoop (Suc i) parameterCount saved (vals[i := saved ! i])
      else vals)"
  by pat_completeness auto
termination
  by (relation "measure (\<lambda>(i, parameterCount, saved, vals). parameterCount - i)") auto

declare loadParametersLoop.simps [simp del]

definition loadParameters :: "CubismModel \<Rightarrow> CubismModel" where
  "loadParameters m =
     (let savedParameterCount = length (savedParameters m);
          parameterCount = (if parameters_count m > savedParameterCount
                            then savedParameterCount else parameters_count m)
      in m\<lparr> parameterValues :=
              loadParametersLoop 0 parameterCount (savedParameters m) (parameterValues m) \<rparr>)"

text \<open>
  A write to a parameter by index, as a value, so that a sequence of calls of the three
  writers can be replayed on a model.
\<close>

datatype ParameterWrite =
    SetParameterValue nat real real
  | AddParameterValue nat real real
  | MultiplyParameterValue nat real real

fun applyWrite :: "ParameterWrite \<Rightarrow> CubismModel \<Rightarrow> CubismModel" where
  "applyWrite (SetParameterValue i v w) m = setParameterValueByIndex i v w m"
| "applyWrite (AddParameterValue i v w) m = addParameterValueByIndex i v w m"
| "applyWrite (MultiplyParameterValue i v w) m = multiplyParameterValueByIndex i v w m"

fun applyWrites :: "ParameterWrite list \<Rightarrow> CubismModel \<Rightarrow> CubismModel" where
  "applyWrites [] m = m"
| "applyWrites (x # xs) m = applyWrites xs (applyWrite x m)"

subsection \<open>Identifier resolution\<close>

text \<open>
  The scan of \<^verbatim>\<open>getParameterIndex\<close> over the real identifiers: an index whose
  identifier differs is skipped, the first other index is returned.
\<close>

function parameterIndexLoop :: "string \<Rightarrow> string list \<Rightarrow> nat \<Rightarrow> nat \<Rightarrow> nat option" where
  "parameterIndexLoop parameterId ids idCount parameterIndex =
     (if parameterIndex < idCount
      then (if \<not> (parameterIndex < length ids \<and> parameterId = ids ! parameterIndex)
            then parameterIndexLoop parameterId ids idCount (Suc parameterIndex)
            else Some parameterIndex)
      else None)"
  by pat_completeness auto
termination
  by (relation "measure (\<lambda>(parameterId, ids, idCount, parameterIndex). idCount - parameterIndex)") auto

declare parameterIndexLoop.simps [simp del]

text \<open>
  \<^verbatim>\<open>getParameterIndex\<close>: a real index if the scan finds one, else the index recorded
  in \<^verbatim>\<open>_notExistParameterId\<close>, else a new entry with index
  \<^verbatim>\<open>count + Object.keys(_notExistParameterId).length\<close> and value 0.
\<close>

definition getParameterIndex :: "string \<Rightarrow> CubismModel \<Rightarrow> nat \<times> CubismModel" where
  "getParameterIndex parameterId m =
     (case parameterIndexLoop parameterId (parameterIds m) (parameters_count m) 0 of
        Some parameterIndex \<Rightarrow> (parameterIndex, m)
      | None \<Rightarrow>
          (case fmlookup (notExistParameterId m) parameterId of
             Some parameterIndex \<Rightarrow> (parameterIndex, m)
           | None \<Rightarrow>
               (let parameterIndex = parameters_count m + fcard (fmdom (notExistParameterId m))
                in (parameterIndex,
                    m\<lparr> notExistParameterId :=
                         fmupd parameterId parameterIndex (notExistParameterId m),
                       notExistParameterValues :=
                         fmupd parameterIndex 0 (notExistParameterValues m) \<rparr>))))"

definition getParameterValueById :: "string \<Rightarrow> CubismModel \<Rightarrow> real \<times> CubismModel" where
  "getParameterValueById parameterId m =
     (let (parameterIndex, m') = getParameterIndex parameterId m
      in (getParameterValueByIndex parameterIndex m', m'))"

text \<open>The scan of \<^verbatim>\<open>getPartIndex\<close>: the first index with an equal identifier.\<close>

function partIndexLoop :: "string \<Rightarrow> string list \<Rightarrow> nat \<Rightarrow> nat \<Rightarrow> nat option" where
  "partIndexLoop partId ids partCount partIndex =
     (if partIndex < partCount
      then (if partIndex < length ids \<and> partId = ids ! partIndex
            then Some partIndex
            else partIndexLoop partId ids partCount (Suc partIndex))
      else None)"
  by pat_completeness auto
termination
  by (relation "measure (\<lambda>(partId, ids, partCount, partIndex). partCount - partIndex)") auto

declare partIndexLoop.simps [simp del]

text \<open>
  \<^verbatim>\<open>partCount + this._notExistPartId.length\<close>.  The second operand is a property
  read on a plain object: the value stored under the key \<open>length\<close> if the dictionary has
  that key, \<^verbatim>\<open>undefined\<close> otherwise.  A number plus \<^verbatim>\<open>undefined\<close>, and a
  number plus \<^verbatim>\<open>NaN\<close>, is \<^verbatim>\<open>NaN\<close>.
\<close>

fun plusLengthProperty :: "nat \<Rightarrow> jsindex option \<Rightarrow> jsindex" where
  "plusLengthProperty n None = NaN"
| "plusLengthProperty n (Some NaN) = NaN"
| "plusLengthProperty n (Some (Index k)) = Index (n + k)"

definition getPartIndex :: "string \<Rightarrow> CubismModel \<Rightarrow> jsindex \<times> CubismModel" where
  "getPartIndex partId m =
     (case partIndexLoop partId (partIds m) (parts_count m) 0 of
        Some partIndex \<Rightarrow> (Index partIndex, m)
      | None \<Rightarrow>
          (case fmlookup (notExistPartId m) partId of
             Some partIndex \<Rightarrow> (partIndex, m)
           | None \<Rightarrow>
               (let partIndex =
                      plusLengthProperty (parts_count m) (fmlookup (notExistPartId m) ''length'')
                in (partIndex,
                    m\<lparr> notExistPartId := fmupd partId partIndex (notExistPartId m),
                       notExistPartOpacities := fmupd partIndex 0 (notExistPartOpacities m) \<rparr>))))"

subsection \<open>Drawable colours\<close>

text \<open>
  What a method throws: the \<^verbatim>\<open>TypeError\<close> of a property access on
  \<^verbatim>\<open>undefined\<close> (an element of an object array read beyond its end), and
  \<^verbatim>\<open>new Error(message)\<close>.
\<close>

datatype error = TypeError | Error string

definition getOverwriteFlagForModelScreenColors :: "CubismModel \<Rightarrow> bool" where
  "getOverwriteFlagForModelScreenColors m = isOverwrittenModelScreenColors m"

definition getOverwriteFlagForDrawableMultiplyColors :: "nat \<Rightarrow> CubismModel \<Rightarrow> error + bool" where
  "getOverwriteFlagForDrawableMultiplyColors drawableindex m =
     (if drawableindex < length (userMultiplyColors m)
      then Inr (isOverwritten (userMultiplyColors m ! drawableindex))
      else Inl TypeError)"

text \<open>
  \<^verbatim>\<open>getOverwriteFlagForDrawableScreenColors\<close> returns
  \<^verbatim>\<open>this._userMultiplyColors[drawableindex].isOverwritten\<close>: it reads the list of the
  multiply colours.
\<close>

definition getOverwriteFlagForDrawableScreenColors :: "nat \<Rightarrow> CubismModel \<Rightarrow> error + bool" where
  "getOverwriteFlagForDrawableScreenColors drawableindex m =
     (if drawableindex < length (userMultiplyColors m)
      then Inr (isOverwritten (userMultiplyColors m ! drawableindex))
      else Inl TypeError)"

definition setOverwriteFlagForDrawableMultiplyColors ::
    "nat \<Rightarrow> bool \<Rightarrow> CubismModel \<Rightarrow> error + CubismModel" where
  "setOverwriteFlagForDrawableMultiplyColors drawableindex b m =
     (if drawableindex < length (userMultiplyColors m)
      then Inr (m\<lparr> userMultiplyColors :=
                    (userMultiplyColors m)
                      [drawableindex := (userMultiplyColors m ! drawableindex)\<lparr> isOverwritten := b \<rparr>] \<rparr>)
      else Inl TypeError)"

definition setOverwriteFlagForDrawableScreenColors ::
    "nat \<Rightarrow> bool \<Rightarrow> CubismModel \<Rightarrow> error + CubismModel" where
  "setOverwriteFlagForDrawableScreenColors drawableindex b m =
     (if drawableindex < length (userScreenColors m)
      then Inr (m\<lparr> userScreenColors :=
                    (userScreenColors m)
                      [drawableindex := (userScreenColors m ! drawableindex)\<lparr> isOverwritten := b \<rparr>] \<rparr>)
      else Inl TypeError)"

definition setScreenColorByRGBA ::
    "nat \<Rightarrow> real \<Rightarrow> real \<Rightarrow> real \<Rightarrow> real \<Rightarrow> CubismModel \<Rightarrow> error + CubismModel" where
  "setScreenColorByRGBA index r g b a m =
     (if index < length (userScreenColors m)
      then Inr (m\<lparr> userScreenColors :=
                    (userScreenColors m)
                      [index := (userScreenColors m ! index)
                                  \<lparr> Color := \<lparr> R = r, G = g, B = b, A = a \<rparr> \<rparr>] \<rparr>)
      else Inl TypeError)"

text \<open>
  \<^verbatim>\<open>getDrawableScreenColor\<close> copies four consecutive cells of the core model's
  \<^verbatim>\<open>screenColors\<close>.  It is reached from \<^verbatim>\<open>getScreenColor\<close> only after the
  flag of the same drawable has been read, hence with an index below the drawable count.
\<close>

definition getDrawableScreenColor :: "nat \<Rightarrow> CubismModel \<Rightarrow> CubismTextureColor" where
  "getDrawableScreenColor drawableIndex m =
     (let index = drawableIndex * 4
      in \<lparr> R = drawables_screenColors m ! index,
           G = drawables_screenColors m ! (index + 1),
           B = drawables_screenColors m ! (index + 2),
           A = drawables_screenColors m ! (index + 3) \<rparr>)"

text \<open>
  \<^verbatim>\<open>getScreenColor\<close>.  The operator \<^verbatim>\<open>||\<close> reads the drawable's flag only when
  the model-wide flag is off.
\<close>

definition getScreenColor :: "nat \<Rightarrow> CubismModel \<Rightarrow> error + CubismTextureColor" where
  "getScreenColor index m =
     (case (if getOverwriteFlagForModelScreenColors m then Inr True
            else getOverwriteFlagForDrawableScreenColors index m) of
        Inl e \<Rightarrow> Inl e
      | Inr True \<Rightarrow>
          (if index < length (userScreenColors m)
           then Inr (Color (userScreenColors m ! index))
           else Inl TypeError)
      | Inr False \<Rightarrow> Inr (getDrawableScreenColor index m))"

text \<open>Running one method after another: an error of the first is the error of both.\<close>

definition andThen :: "error + 'a \<Rightarrow> ('a \<Rightarrow> error + 'b) \<Rightarrow> error + 'b" where
  "andThen r f = (case r of Inl e \<Rightarrow> Inl e | Inr x \<Rightarrow> f x)"

section \<open>CubismExpressionMotion\<close>

subsection \<open>Data\<close>

datatype ExpressionBlendType = Additive | Multiply | Overwrite

text \<open>
  \<^verbatim>\<open>ExpressionParameter\<close>; its fields carry the prefix \<open>exp\<close> because the
  accumulator entry below has a \<^verbatim>\<open>parameterId\<close> of its own.
\<close>

record ExpressionParameter =
  exp_parameterId :: string
  exp_blendType :: ExpressionBlendType
  exp_value :: real

text \<open>
  An accumulator entry, \<^verbatim>\<open>ExpressionParameterValue\<close>.  The blend step tests
  \<^verbatim>\<open>parameterId == null\<close>, so the identifier is optional.
\<close>

record ExpressionParameterValue =
  parameterId :: "string option"
  additiveValue :: real
  multiplyValue :: real
  overwriteValue :: real

text \<open>
  Modelled from the spec: the class \<^verbatim>\<open>CubismMotionQueueEntry\<close> is not among the
  sources.  The playback instance has the fields the spec lists: the flags behind
  \<^verbatim>\<open>isAvailable()\<close> and \<^verbatim>\<open>isStarted()\<close>, the start time, the fade-in start
  time and the end time; the getters and setters used by the blend step read and write
  these fields.  Further fields of the class live in the record's extension.
\<close>

record CubismMotionQueueEntry =
  available :: bool
  started :: bool
  startTime :: real
  fadeInStartTime :: real
  endTime :: real

text \<open>
  The expression motion: \<^verbatim>\<open>_parameters\<close> and \<^verbatim>\<open>_fadeWeight\<close>, and the fields of
  the base class that this file reads or sets (\<^verbatim>\<open>_offsetSeconds\<close>, the fade times
  behind \<^verbatim>\<open>setFadeInTime\<close> and \<^verbatim>\<open>setFadeOutTime\<close>).
\<close>

record CubismExpressionMotion =
  fadeInSeconds :: real
  fadeOutSeconds :: real
  offsetSeconds :: real
  parameters :: "ExpressionParameter list"
  fadeWeight :: real

text \<open>
  Modelled from the spec: the type \<^verbatim>\<open>CubismSpec.ExpressionJSON\<close> is not among the
  sources.  It has the optional fields \<^verbatim>\<open>FadeInTime\<close>, \<^verbatim>\<open>FadeOutTime\<close> and
  \<^verbatim>\<open>Parameters\<close>; a parameter entry has \<^verbatim>\<open>Id\<close>, \<^verbatim>\<open>Value\<close> and an
  optional \<^verbatim>\<open>Blend\<close>.  The field \<^verbatim>\<open>Id\<close> is named \<open>Id_json\<close> here.
\<close>

record ExpressionJSONParameter =
  Id_json :: string
  Value :: real
  Blend :: "string option"

record ExpressionJSON =
  FadeInTime :: "real option"
  FadeOutTime :: "real option"
  Parameters :: "ExpressionJSONParameter list option"

subsection \<open>Parsing\<close>

definition DefaultFadeTime :: real where
  "DefaultFadeTime = 1.0"

text \<open>
  The loop of \<^verbatim>\<open>parse\<close> over the parameter entries.  \<^verbatim>\<open>!param.Blend\<close> holds for
  an absent field and for the empty string.
\<close>

fun parseParameters ::
    "ExpressionJSONParameter list \<Rightarrow> ExpressionParameter list \<Rightarrow> ExpressionParameter list" where
  "parseParameters [] ps = ps"
| "parseParameters (param # rest) ps =
     (let blendType =
            (if Blend param = None \<or> Blend param = Some [] \<or> Blend param = Some ''Add''
             then Additive
             else if Blend param = Some ''Multiply'' then Multiply
             else if Blend param = Some ''Overwrite'' then Overwrite
             else Additive);
          item = \<lparr> exp_parameterId = Id_json param,
                   exp_blendType = blendType,
                   exp_value = Value param \<rparr>
      in parseParameters rest (ps @ [item]))"

definition parse :: "ExpressionJSON option \<Rightarrow> CubismExpressionMotion \<Rightarrow> CubismExpressionMotion" where
  "parse json mo =
     (case json of
        None \<Rightarrow> mo
      | Some j \<Rightarrow>
          mo\<lparr> fadeInSeconds := (case FadeInTime j of Some t \<Rightarrow> t | None \<Rightarrow> DefaultFadeTime),
               fadeOutSeconds := (case FadeOutTime j of Some t \<Rightarrow> t | None \<Rightarrow> DefaultFadeTime),
               parameters :=
                 parseParameters (case Parameters j of Some ps \<Rightarrow> ps | None \<Rightarrow> [])
                   (parameters mo) \<rparr>)"

subsection \<open>The blend step\<close>

definition DefaultAdditiveValue :: real where
  "DefaultAdditiveValue = 0.0"

definition DefaultMultiplyValue :: real where
  "DefaultMultiplyValue = 1.0"

definition getExpressionParameters :: "CubismExpressionMotion \<Rightarrow> ExpressionParameter list" where
  "getExpressionParameters mo = parameters mo"

definition calculateValue :: "CubismExpressionMotion \<Rightarrow> real \<Rightarrow> real \<Rightarrow> real" where
  "calculateValue mo source destination =
     source * (1.0 - fadeWeight mo) + destination * fadeWeight mo"

text \<open>
  The inner loop over the expression's parameters: the first position \<open>j\<close> whose
  identifier equals the entry's.  \<open>None\<close> stands for the initial \<^verbatim>\<open>-1\<close> of
  \<^verbatim>\<open>parameterIndex\<close>.
\<close>

fun expressionParameterIndex :: "string \<Rightarrow> ExpressionParameter list \<Rightarrow> nat \<Rightarrow> nat option" where
  "expressionParameterIndex pid [] j = None"
| "expressionParameterIndex pid (p # ps) j =
     (if pid \<noteq> exp_parameterId p then expressionParameterIndex pid ps (Suc j) else Some j)"

text \<open>
  One iteration of the outer loop.  The model is returned as well because reading a
  value by identifier may register a shadow parameter.  The \<^verbatim>\<open>switch\<close> has one
  case for each member of the enumeration; its \<^verbatim>\<open>default\<close> branch has no value of
  \<^typ>\<open>ExpressionBlendType\<close> to run on.
\<close>

definition blendEntry ::
    "CubismExpressionMotion \<Rightarrow> nat \<Rightarrow> ExpressionParameterValue \<Rightarrow> CubismModel
       \<Rightarrow> ExpressionParameterValue \<times> CubismModel" where
  "blendEntry mo expressionIndex expressionParameterValue m =
     (case parameterId expressionParameterValue of
        None \<Rightarrow> (expressionParameterValue, m)
      | Some pid \<Rightarrow>
          (let (currentParameterValue, m') = getParameterValueById pid m;
               e = expressionParameterValue\<lparr> overwriteValue := currentParameterValue \<rparr>;
               expressionParameters = getExpressionParameters mo
           in (case expressionParameterIndex pid expressionParameters 0 of
                 None \<Rightarrow>
                   (if expressionIndex = 0
                    then (e\<lparr> additiveValue := DefaultAdditiveValue,
                             multiplyValue := DefaultMultiplyValue,
                             overwriteValue := currentParameterValue \<rparr>, m')
                    else (e\<lparr> additiveValue :=
                               calculateValue mo (additiveValue e) DefaultAdditiveValue,
                             multiplyValue :=
                               calculateValue mo (multiplyValue e) DefaultMultiplyValue,
                             overwriteValue :=
                               calculateValue mo (overwriteValue e) currentParameterValue \<rparr>, m'))
               | Some parameterIndex \<Rightarrow>
                   (let v = exp_value (expressionParameters ! parameterIndex);
                        (newAdditiveValue, newMultiplyValue, newOverwriteValue) =
                          (case exp_blendType (expressionParameters ! parameterIndex) of
                             Additive \<Rightarrow> (v, DefaultMultiplyValue, currentParameterValue)
                           | Multiply \<Rightarrow> (DefaultAdditiveValue, v, currentParameterValue)
                           | Overwrite \<Rightarrow> (DefaultAdditiveValue, DefaultMultiplyValue, v))
                    in (if expressionIndex = 0
                        then (e\<lparr> additiveValue := newAdditiveValue,
                                 multiplyValue := newMultiplyValue,
                                 overwriteValue := newOverwriteValue \<rparr>, m')
                        else (e\<lparr> additiveValue :=
                                   additiveValue e * (1.0 - fadeWeight mo)
                                   + newAdditiveValue * fadeWeight mo,
                                 multiplyValue :=
                                   multiplyValue e * (1.0 - fadeWeight mo)
                                   + newMultiplyValue * fadeWeight mo,
                                 overwriteValue :=
                                   overwriteValue e * (1.0 - fadeWeight mo)
                                   + newOverwriteValue * fadeWeight mo \<rparr>, m'))))))"

text \<open>The outer loop over the accumulator.\<close>

fun blendLoop ::
    "CubismExpressionMotion \<Rightarrow> nat \<Rightarrow> ExpressionParameterValue list \<Rightarrow> CubismModel
       \<Rightarrow> ExpressionParameterValue list \<times> CubismModel" where
  "blendLoop mo expressionIndex [] m = ([], m)"
| "blendLoop mo expressionIndex (x # xs) m =
     (let (x', m') = blendEntry mo expressionIndex x m;
          (xs', m'') = blendLoop mo expressionIndex xs m'
      in (x' # xs', m''))"

text \<open>
  \<^verbatim>\<open>calculateExpressionParameters\<close>.  The methods \<^verbatim>\<open>getDuration\<close> and
  \<^verbatim>\<open>updateFadeWeight\<close> belong to the base class \<^verbatim>\<open>ACubismMotion\<close>, which is
  not among the sources; they are the first two arguments.  \<open>updateFadeWeight\<close> returns
  the weight together with the playback instance, which it may update.  The result is the
  model, the playback instance, the accumulator and the motion after the call.
\<close>

definition calculateExpressionParameters ::
    "(CubismExpressionMotion \<Rightarrow> real)
     \<Rightarrow> (CubismExpressionMotion \<Rightarrow> 'q CubismMotionQueueEntry_scheme \<Rightarrow> real
           \<Rightarrow> real \<times> 'q CubismMotionQueueEntry_scheme)
     \<Rightarrow> CubismModel \<Rightarrow> real \<Rightarrow> 'q CubismMotionQueueEntry_scheme
     \<Rightarrow> ExpressionParameterValue list \<Rightarrow> nat \<Rightarrow> CubismExpressionMotion
     \<Rightarrow> CubismModel \<times> 'q CubismMotionQueueEntry_scheme
         \<times> ExpressionParameterValue list \<times> CubismExpressionMotion" where
  "calculateExpressionParameters getDuration updateFadeWeight m userTimeSeconds motionQueueEntry
       expressionParameterValues expressionIndex mo =
     (if \<not> available motionQueueEntry
      then (m, motionQueueEntry, expressionParameterValues, mo)
      else
        (let q1 =
               (if \<not> started motionQueueEntry
                then (let q = motionQueueEntry
                                \<lparr> started := True,
                                  startTime := userTimeSeconds - offsetSeconds mo,
                                  fadeInStartTime := userTimeSeconds \<rparr>;
                          duration = getDuration mo
                      in (if endTime q < 0.0
                          then q\<lparr> endTime := (if duration \<le> 0.0 then -1 else startTime q + duration) \<rparr>
                          else q))
                else motionQueueEntry);
             (w, q2) = updateFadeWeight mo q1 userTimeSeconds;
             mo1 = mo\<lparr> fadeWeight := w \<rparr>;
             (values', m') = blendLoop mo1 expressionIndex expressionParameterValues m
         in (m', q2, values', mo1)))"

section \<open>CubismMoc\<close>

type_synonym ArrayBuffer = "8 word list"

text \<open>
  The three entry points of the external library \<^verbatim>\<open>Live2DCubismCore\<close> that
  \<^verbatim>\<open>CubismMoc.create\<close> calls.  \<^verbatim>\<open>Moc.fromArrayBuffer\<close> returns a Moc or a
  falsy value.
\<close>

record 'moc Live2DCubismCore =
  Moc_hasMocConsistency :: "ArrayBuffer \<Rightarrow> int"
  Moc_fromArrayBuffer :: "ArrayBuffer \<Rightarrow> 'moc option"
  Version_csmGetMocVersion :: "'moc \<Rightarrow> ArrayBuffer \<Rightarrow> nat"

record 'moc CubismMoc =
  moc :: 'moc
  modelCount :: int
  mocVersion :: nat

definition hasMocConsistency :: "'moc Live2DCubismCore \<Rightarrow> ArrayBuffer \<Rightarrow> bool" where
  "hasMocConsistency core mocBytes =
     (let isConsistent = Moc_hasMocConsistency core mocBytes
      in (if isConsistent = 1 then True else False))"

text \<open>
  \<^verbatim>\<open>CubismMoc.create\<close>: the consistency check when it is asked for, then the
  construction, which sets the version after the private constructor initialised the
  fields.
\<close>

definition create :: "'moc Live2DCubismCore \<Rightarrow> ArrayBuffer \<Rightarrow> bool \<Rightarrow> error + 'moc CubismMoc" where
  "create core mocBytes shouldCheckMocConsistency =
     (case (if shouldCheckMocConsistency
            then (let consistency = hasMocConsistency core mocBytes
                  in if \<not> consistency then Inl (Error ''Inconsistent MOC3.'') else Inr ())
            else Inr ()) of
        Inl e \<Rightarrow> Inl e
      | Inr u \<Rightarrow>
          (case Moc_fromArrayBuffer core mocBytes of
             Some mc \<Rightarrow>
               (let cubismMoc = \<lparr> moc = mc, modelCount = 0, mocVersion = 0 \<rparr>
                in Inr (cubismMoc\<lparr> mocVersion := Version_csmGetMocVersion core mc mocBytes \<rparr>))
           | None \<Rightarrow> Inl (Error ''Failed to CubismMoc.create().'')))"

definition getMocVersion :: "'moc CubismMoc \<Rightarrow> nat" where
  "getMocVersion cubismMoc = mocVersion cubismMoc"

section \<open>An invariant of the shadow table\<close>

text \<open>
  Every index recorded in \<^verbatim>\<open>_notExistParameterId\<close> lies below the index that the
  next unknown identifier will receive.  The table starts empty and only
  \<^verbatim>\<open>getParameterIndex\<close> writes to it, so the property holds in every state
  that the methods modelled here reach from a constructed model.
\<close>

definition shadowIndicesInRange :: "CubismModel \<Rightarrow> bool" where
  "shadowIndicesInRange m =
     fmpred (\<lambda>pid k. k < parameters_count m + fcard (fmdom (notExistParameterId m)))
       (notExistParameterId m)"

section \<open>Example objects\<close>

text \<open>
  A loaded model with one parameter \<open>ParamA\<close> ranging over \<open>[-1, 1]\<close>, one part and one
  drawable, as the constructor builds it.
\<close>

definition demoCore :: CoreModel where
  "demoCore =
     \<lparr> core_parameters_count = 1,
       core_parameters_ids = [''ParamA''],
       core_parameters_values = [0],
       core_parameters_minimumValues = [-1],
       core_parameters_maximumValues = [1],
       core_parts_count = 1,
       core_parts_ids = [''PartA''],
       core_parts_opacities = [1],
       core_drawables_count = 1,
       core_drawables_ids = [''ArtMesh0''],
       core_drawables_multiplyColors = [1, 1, 1, 1],
       core_drawables_screenColors = [0, 0, 0, 0] \<rparr>"

definition demoModel :: CubismModel where
  "demoModel = newCubismModel demoCore"

text \<open>The same model after an unknown parameter was given the shadow index 1.\<close>

definition demoShadowModel :: CubismModel where
  "demoShadowModel =
     demoModel\<lparr> notExistParameterId := fmupd ''ParamX'' 1 fmempty,
                notExistParameterValues := fmupd 1 0 fmempty \<rparr>"

text \<open>
  A playback instance that is available and not yet started, and the same instance after
  it was marked finished.
\<close>

definition demoEntry :: CubismMotionQueueEntry where
  "demoEntry =
     \<lparr> available = True, started = False, startTime = 0, fadeInStartTime = 0, endTime = -1 \<rparr>"

definition finishedEntry :: CubismMotionQueueEntry where
  "finishedEntry = demoEntry\<lparr> available := False \<rparr>"

text \<open>An expression that adds 1 to \<open>ParamA\<close>, and an expression without parameters.\<close>

definition demoExpression :: CubismExpressionMotion where
  "demoExpression =
     \<lparr> fadeInSeconds = 0, fadeOutSeconds = 0, offsetSeconds = 0,
       parameters =
         [\<lparr> exp_parameterId = ''ParamA'', exp_blendType = Additive, exp_value = 1 \<rparr>],
       fadeWeight = 0 \<rparr>"

definition emptyExpression :: CubismExpressionMotion where
  "emptyExpression =
     \<lparr> fadeInSeconds = 0, fadeOutSeconds = 0, offsetSeconds = 0,
       parameters = [], fadeWeight = 0 \<rparr>"

text \<open>
  An accumulator as a first expression leaves it after overwriting \<open>ParamA\<close> with
  \<open>1/2\<close>, followed by an entry without identifier and an entry for a parameter that the
  model does not have.
\<close>

definition demoAccumulator :: "ExpressionParameterValue list" where
  "demoAccumulator =
     [\<lparr> parameterId = Some ''ParamA'', additiveValue = 0, multiplyValue = 1,
        overwriteValue = 1/2 \<rparr>,
      \<lparr> parameterId = None, additiveValue = 5, multiplyValue = 5, overwriteValue = 5 \<rparr>,
      \<lparr> parameterId = Some ''ParamX'', additiveValue = 9, multiplyValue = 9,
        overwriteValue = 9 \<rparr>]"

text \<open>Base-class methods for the examples: no duration, and a constant fade weight.\<close>

definition noDuration :: "CubismExpressionMotion \<Rightarrow> real" where
  "noDuration mo = -1"

definition constantWeight ::
    "real \<Rightarrow> CubismExpressionMotion \<Rightarrow> CubismMotionQueueEntry \<Rightarrow> real
       \<Rightarrow> real \<times> CubismMotionQueueEntry" where
  "constantWeight w mo q t = (w, q)"

text \<open>An expression file with every kind of \<^verbatim>\<open>Blend\<close> field.\<close>

definition demoJSON :: ExpressionJSON where
  "demoJSON =
     \<lparr> FadeInTime = None, FadeOutTime = Some 0,
       Parameters = Some
         [\<lparr> Id_json = ''ParamA'', Value = 1, Blend = Some ''Add'' \<rparr>,
          \<lparr> Id_json = ''ParamB'', Value = 2, Blend = None \<rparr>,
          \<lparr> Id_json = ''ParamC'', Value = 3, Blend = Some ''Multiply'' \<rparr>,
          \<lparr> Id_json = ''ParamD'', Value = 4, Blend = Some ''Overwrite'' \<rparr>,
          \<lparr> Id_json = ''ParamE'', Value = 5, Blend = Some ''Screen'' \<rparr>] \<rparr>"

text \<open>
  A core library that finds only the buffer \<open>[1]\<close> consistent, builds a Moc (here the
  number 7) from every buffer and reports version 5.
\<close>

definition demoLibrary :: "nat Live2DCubismCore" where
  "demoLibrary =
     \<lparr> Moc_hasMocConsistency = (\<lambda>mocBytes. if mocBytes = [1] then 1 else 0),
       Moc_fromArrayBuffer = (\<lambda>mocBytes. Some 7),
       Version_csmGetMocVersion = (\<lambda>mc mocBytes. 5) \<rparr>"

text \<open>Three writes: two to the real parameter 0 and one to the shadow parameter 1.\<close>

definition demoWrites :: "ParameterWrite list" where
  "demoWrites =
     [SetParameterValue 0 5 1, AddParameterValue 1 2 1, MultiplyParameterValue 0 3 (1/2)]"

section \<open>Properties of the parameter setter\<close>

text \<open>
  C1 (as amended).  For a real parameter index, \<^verbatim>\<open>setParameterValueByIndex\<close> first
  clamps the written value to \<open>[minimum, maximum]\<close>.  With weight 1 the clamped value
  replaces the stored one; with any other weight \<open>w\<close> the stored value becomes
  \<open>stored * (1 - w) + clamped * w\<close>, so the clamp is applied to the written value
  before the interpolation and the interpolated result is not clamped again.  For a
  shadow index nothing is clamped: weight 1 stores the value as it is and any other
  weight stores \<open>stored * (1 - w) + value * w\<close>.
\<close>

theorem setParameterValueByIndex_clamps_before_interpolating:
  "(fmlookup (notExistParameterValues m) i = None
      \<and> i < length (parameterValues m)
      \<and> i < length (parameters_minimumValues m)
      \<and> i < length (parameters_maximumValues m)
    \<longrightarrow> parameterValues (setParameterValueByIndex i v w m) ! i =
          (if w = 1
           then max (parameters_minimumValues m ! i) (min (parameters_maximumValues m ! i) v)
           else parameterValues m ! i * (1 - w)
                + max (parameters_minimumValues m ! i) (min (parameters_maximumValues m ! i) v) * w))
   \<and> (fmlookup (notExistParameterValues m) i = Some s
    \<longrightarrow> fmlookup (notExistParameterValues (setParameterValueByIndex i v w m)) i =
          Some (if w = 1 then v else s * (1 - w) + v * w)
        \<and> parameterValues (setParameterValueByIndex i v w m) = parameterValues m)"
  by (simp add: setParameterValueByIndex_def Let_def max_def min_def)

text \<open>
  On the model with minimum \<open>-1\<close> and maximum \<open>1\<close>: writing 5 with weight 1 stores 1,
  writing \<open>-5\<close> stores \<open>-1\<close>, and writing 5 to the shadow index stores 5.
\<close>

theorem setParameterValueByIndex_clamps_before_interpolating_witness:
  "parameterValues (setParameterValueByIndex 0 5 1 demoShadowModel) ! 0 = 1
   \<and> parameterValues (setParameterValueByIndex 0 (-5) 1 demoShadowModel) ! 0 = -1
   \<and> fmlookup (notExistParameterValues (setParameterValueByIndex 1 5 1 demoShadowModel)) 1 = Some 5"
  using setParameterValueByIndex_clamps_before_interpolating [of demoShadowModel 0 5 1 0]
    setParameterValueByIndex_clamps_before_interpolating [of demoShadowModel 0 "-5" 1 0]
    setParameterValueByIndex_clamps_before_interpolating [of demoShadowModel 1 5 1 0]
  by (simp add: demoShadowModel_def demoModel_def newCubismModel_def demoCore_def)

text \<open>
  The claim as stated, that a weight below 1 clamps the interpolated result, fails:
  with stored value 0 the write of 5 with weight \<open>1/2\<close> stores \<open>1/2\<close>, whereas
  clamping the interpolated value \<open>0 * (1 - 1/2) + 5 * (1/2) = 5/2\<close> would store 1.
\<close>

theorem setParameterValueByIndex_interpolated_result_counterexample:
  "parameterValues (setParameterValueByIndex 0 5 (1/2) demoModel) ! 0 = 1/2
   \<and> max (-1) (min 1 (parameterValues demoModel ! 0 * (1 - 1/2) + 5 * (1/2))) = (1::real)
   \<and> parameterValues (setParameterValueByIndex 0 5 (1/2) demoModel) ! 0
      \<noteq> max (parameters_minimumValues demoModel ! 0)
            (min (parameters_maximumValues demoModel ! 0)
               (parameterValues demoModel ! 0 * (1 - 1/2) + 5 * (1/2)))"
  by (simp add: setParameterValueByIndex_def demoModel_def newCubismModel_def demoCore_def)

section \<open>Properties of snapshot and restore\<close>

text \<open>
  The loop of \<^verbatim>\<open>saveParameters\<close>, started at \<open>i\<close> with a list as long as the
  larger of \<open>i\<close> and the initial length: the result holds the parameter values at the
  positions from \<open>i\<close> up to the parameter count and is unchanged below \<open>i\<close>.
\<close>

lemma saveParametersLoop_inv:
  "length saved = max s0 i \<Longrightarrow>
   length (saveParametersLoop i n s0 vals saved) = max s0 (max i n)
   \<and> (\<forall>k. i \<le> k \<and> k < n \<longrightarrow> saveParametersLoop i n s0 vals saved ! k = vals ! k)
   \<and> (\<forall>k. k < i \<longrightarrow> saveParametersLoop i n s0 vals saved ! k = saved ! k)"
proof (induction i n s0 vals saved rule: saveParametersLoop.induct)
  case (1 i n s0 vals saved)
  show ?case
  proof (cases "i < n")
    case False
    with "1.prems" show ?thesis
      by (simp add: saveParametersLoop.simps [of i n])
  next
    case True
    define saved' where
      "saved' = (if i < s0 then saved[i := vals ! i] else saved @ [vals ! i])"
    have len: "length saved' = max s0 (Suc i)"
      using "1.prems" by (auto simp: saved'_def)
    have at_i: "saved' ! i = vals ! i"
      using "1.prems" by (auto simp: saved'_def nth_append)
    have below: "\<And>k. k < i \<Longrightarrow> saved' ! k = saved ! k"
      using "1.prems" by (auto simp: saved'_def nth_append)
    have unfold: "saveParametersLoop i n s0 vals saved = saveParametersLoop (Suc i) n s0 vals saved'"
      using True by (simp add: saveParametersLoop.simps [of i n] saved'_def)
    have IH: "length (saveParametersLoop (Suc i) n s0 vals saved') = max s0 (max (Suc i) n)
      \<and> (\<forall>k. Suc i \<le> k \<and> k < n \<longrightarrow> saveParametersLoop (Suc i) n s0 vals saved' ! k = vals ! k)
      \<and> (\<forall>k. k < Suc i \<longrightarrow> saveParametersLoop (Suc i) n s0 vals saved' ! k = saved' ! k)"
      using "1.IH" [OF True] len by (simp add: saved'_def)
    show ?thesis
    proof (intro conjI allI impI)
      show "length (saveParametersLoop i n s0 vals saved) = max s0 (max i n)"
        using IH True unfold by simp
    next
      fix k assume "i \<le> k \<and> k < n"
      then show "saveParametersLoop i n s0 vals saved ! k = vals ! k"
        using IH at_i unfold by (cases "k = i") auto
    next
      fix k assume "k < i"
      then show "saveParametersLoop i n s0 vals saved ! k = saved ! k"
        using IH below unfold by auto
    qed
  qed
qed

text \<open>
  The loop of \<^verbatim>\<open>loadParameters\<close> keeps the length of the value array and copies
  the saved values at the positions from \<open>i\<close> up to the count.
\<close>

lemma loadParametersLoop_inv:
  "length (loadParametersLoop i n saved vals) = length vals
   \<and> (\<forall>k. k < length vals \<longrightarrow>
         loadParametersLoop i n saved vals ! k = (if i \<le> k \<and> k < n then saved ! k else vals ! k))"
proof (induction i n saved vals rule: loadParametersLoop.induct)
  case (1 i n saved vals)
  show ?case
  proof (cases "i < n")
    case False
    then show ?thesis by (simp add: loadParametersLoop.simps [of i n])
  next
    case True
    have unfold: "loadParametersLoop i n saved vals = loadParametersLoop (Suc i) n saved (vals[i := saved ! i])"
      using True by (simp add: loadParametersLoop.simps [of i n])
    have IH1: "length (loadParametersLoop (Suc i) n saved (vals[i := saved ! i])) = length vals"
      using "1.IH" [OF True] by simp
    have IH2: "loadParametersLoop (Suc i) n saved (vals[i := saved ! i]) ! k =
           (if Suc i \<le> k \<and> k < n then saved ! k else vals[i := saved ! i] ! k)"
      if "k < length vals" for k
      using "1.IH" [OF True] that by simp
    show ?thesis
    proof (intro conjI allI impI)
      show "length (loadParametersLoop i n saved vals) = length vals"
        using IH1 unfold by simp
    next
      fix k assume k: "k < length vals"
      show "loadParametersLoop i n saved vals ! k =
              (if i \<le> k \<and> k < n then saved ! k else vals ! k)"
      proof (cases "k = i")
        case True
        have "loadParametersLoop (Suc i) n saved (vals[i := saved ! i]) ! i = saved ! i"
          using IH2 [of i] k True by simp
        with True \<open>i < n\<close> unfold show ?thesis by simp
      next
        case False
        have "loadParametersLoop (Suc i) n saved (vals[i := saved ! i]) ! k =
           (if Suc i \<le> k \<and> k < n then saved ! k else vals ! k)"
          using IH2 [of k] k False by simp
        moreover have "(Suc i \<le> k) = (i \<le> k)" using False by auto
        ultimately show ?thesis using unfold by simp
      qed
    qed
  qed
qed

text \<open>
  The writers change neither the snapshot nor the parameter count nor the length of the
  value array, and what they do to the shadow values depends on the shadow values alone.
\<close>

lemma setParameterValueByIndex_frame:
  "savedParameters (setParameterValueByIndex i v w m) = savedParameters m"
  "parameters_count (setParameterValueByIndex i v w m) = parameters_count m"
  "length (parameterValues (setParameterValueByIndex i v w m)) = length (parameterValues m)"
  by (simp_all add: setParameterValueByIndex_def Let_def split: option.splits)

lemma applyWrite_frame:
  "savedParameters (applyWrite x m) = savedParameters m"
  "parameters_count (applyWrite x m) = parameters_count m"
  "length (parameterValues (applyWrite x m)) = length (parameterValues m)"
  by (cases x, simp_all add: addParameterValueByIndex_def multiplyParameterValueByIndex_def
        setParameterValueByIndex_frame)+

lemma applyWrites_frame:
  "savedParameters (applyWrites xs m) = savedParameters m
   \<and> parameters_count (applyWrites xs m) = parameters_count m
   \<and> length (parameterValues (applyWrites xs m)) = length (parameterValues m)"
  by (induction xs arbitrary: m) (simp_all add: applyWrite_frame)

lemma setParameterValueByIndex_shadow_get:
  "notExistParameterValues m1 = notExistParameterValues m2 \<Longrightarrow>
   notExistParameterValues (setParameterValueByIndex i (f (getParameterValueByIndex i m1)) w m1) =
   notExistParameterValues (setParameterValueByIndex i (f (getParameterValueByIndex i m2)) w m2)"
  by (simp add: setParameterValueByIndex_def getParameterValueByIndex_def Let_def split: option.splits)

lemma setParameterValueByIndex_shadow:
  "notExistParameterValues m1 = notExistParameterValues m2 \<Longrightarrow>
   notExistParameterValues (setParameterValueByIndex i v w m1) =
   notExistParameterValues (setParameterValueByIndex i v w m2)"
  by (rule setParameterValueByIndex_shadow_get [of m1 m2 i "\<lambda>c. v" w])

lemma applyWrite_shadow:
  assumes "notExistParameterValues m1 = notExistParameterValues m2"
  shows "notExistParameterValues (applyWrite x m1) = notExistParameterValues (applyWrite x m2)"
proof (cases x)
  case (SetParameterValue i v w)
  show ?thesis
    unfolding SetParameterValue applyWrite.simps
    by (rule setParameterValueByIndex_shadow [OF assms])
next
  case (AddParameterValue i v w)
  show ?thesis
    unfolding AddParameterValue applyWrite.simps addParameterValueByIndex_def
    by (rule setParameterValueByIndex_shadow_get [OF assms, of i "\<lambda>c. c + v * w" 1])
next
  case (MultiplyParameterValue i v w)
  show ?thesis
    unfolding MultiplyParameterValue applyWrite.simps multiplyParameterValueByIndex_def
    by (rule setParameterValueByIndex_shadow_get [OF assms, of i "\<lambda>c. c * (1 + (v - 1) * w)" 1])
qed

lemma applyWrites_shadow:
  "notExistParameterValues m1 = notExistParameterValues m2 \<Longrightarrow>
   notExistParameterValues (applyWrites xs m1) = notExistParameterValues (applyWrites xs m2)"
proof (induction xs arbitrary: m1 m2)
  case Nil
  then show ?case by simp
next
  case (Cons x xs)
  show ?case
    unfolding applyWrites.simps
    by (rule Cons.IH [OF applyWrite_shadow [OF Cons.prems]])
qed

text \<open>
  C6.  After \<^verbatim>\<open>saveParameters\<close>, any sequence of calls of
  \<^verbatim>\<open>setParameterValueByIndex\<close>, \<^verbatim>\<open>addParameterValueByIndex\<close> and
  \<^verbatim>\<open>multiplyParameterValueByIndex\<close> followed by \<^verbatim>\<open>loadParameters\<close> leaves
  every real parameter with the value it had when the snapshot was taken.  The shadow
  values take no part: \<^verbatim>\<open>saveParameters\<close> does not touch them and saves the same
  list whatever they are, and after \<^verbatim>\<open>loadParameters\<close> they are what the writes
  alone make of the original shadow values, so a write to a shadow parameter is not
  undone.
\<close>

theorem loadParameters_restores_saved_real_values:
  "(i < parameters_count m \<and> i < length (parameterValues m) \<longrightarrow>
      parameterValues (loadParameters (applyWrites ws (saveParameters m))) ! i = parameterValues m ! i)
   \<and> notExistParameterValues (saveParameters m) = notExistParameterValues m
   \<and> savedParameters (saveParameters (m\<lparr> notExistParameterValues := shadow \<rparr>)) =
       savedParameters (saveParameters m)
   \<and> notExistParameterValues (loadParameters (applyWrites ws (saveParameters m))) =
       notExistParameterValues (applyWrites ws m)"
proof (intro conjI impI)
  let ?s = "saveParameters m"
  let ?w = "applyWrites ws ?s"
  have sv_len: "parameters_count m \<le> length (savedParameters ?s)"
    and sv_nth: "\<And>k. k < parameters_count m \<Longrightarrow> savedParameters ?s ! k = parameterValues m ! k"
    using saveParametersLoop_inv [of "savedParameters m" "length (savedParameters m)" 0
        "parameters_count m" "parameterValues m"]
    by (simp_all add: saveParameters_def)
  have fr1: "savedParameters ?w = savedParameters ?s"
    and fr2: "parameters_count ?w = parameters_count m"
    and fr3: "length (parameterValues ?w) = length (parameterValues m)"
    using applyWrites_frame [of ws ?s] by (simp_all add: saveParameters_def)
  show "savedParameters (saveParameters (m\<lparr> notExistParameterValues := shadow \<rparr>)) =
      savedParameters (saveParameters m)"
    by (simp add: saveParameters_def)
  show "notExistParameterValues ?s = notExistParameterValues m"
    by (simp add: saveParameters_def)
  then have "notExistParameterValues ?w = notExistParameterValues (applyWrites ws m)"
    by (rule applyWrites_shadow)
  then show "notExistParameterValues (loadParameters ?w) = notExistParameterValues (applyWrites ws m)"
    by (simp add: loadParameters_def Let_def)
  assume i: "i < parameters_count m \<and> i < length (parameterValues m)"
  have "\<not> length (savedParameters ?w) < parameters_count ?w"
    unfolding fr1 fr2 using sv_len by simp
  then have lp: "parameterValues (loadParameters ?w) =
      loadParametersLoop 0 (parameters_count ?w) (savedParameters ?w) (parameterValues ?w)"
    by (simp add: loadParameters_def Let_def)
  have "i < length (parameterValues ?w)" "i < parameters_count ?w"
    using i fr2 fr3 by simp_all
  then have "parameterValues (loadParameters ?w) ! i = savedParameters ?w ! i"
    using loadParametersLoop_inv [of 0 "parameters_count ?w" "savedParameters ?w" "parameterValues ?w"]
    unfolding lp by simp
  also have "\<dots> = savedParameters ?s ! i"
    by (simp only: fr1)
  also have "\<dots> = parameterValues m ! i"
    using sv_nth i by simp
  finally show "parameterValues (loadParameters ?w) ! i = parameterValues m ! i" .
qed


lemma demoWrites_facts:
  "0 < parameters_count demoShadowModel \<and> 0 < length (parameterValues demoShadowModel)"
  "parameterValues demoShadowModel ! 0 = 0"
  "parameterValues (applyWrites demoWrites demoShadowModel) ! 0 = 1"
  "fmlookup (notExistParameterValues (applyWrites demoWrites demoShadowModel)) 1 = Some 2"
  by (simp_all add: demoWrites_def demoShadowModel_def demoModel_def newCubismModel_def
      demoCore_def setParameterValueByIndex_def addParameterValueByIndex_def
      multiplyParameterValueByIndex_def getParameterValueByIndex_def)

text \<open>
  On the example model the writes alone leave the real parameter at 1 and the shadow
  parameter at \<open>2\<close>; with the snapshot taken before and restored after, the real
  parameter is back at its saved value 0 and the shadow parameter is still \<open>2\<close>.
\<close>

theorem loadParameters_restores_saved_real_values_witness:
  "parameterValues (loadParameters (applyWrites demoWrites (saveParameters demoShadowModel))) ! 0 = 0
   \<and> fmlookup (notExistParameterValues
         (loadParameters (applyWrites demoWrites (saveParameters demoShadowModel)))) 1 = Some 2"
  using loadParameters_restores_saved_real_values [where i = 0 and m = demoShadowModel and ws = demoWrites and shadow = fmempty]
    demoWrites_facts
  by simp

section \<open>Properties of identifier resolution\<close>

text \<open>The scan returns an index below the parameter count.\<close>

lemma parameterIndexLoop_bound:
  "parameterIndexLoop pid ids n j = Some k \<Longrightarrow> k < n"
proof (induction pid ids n j rule: parameterIndexLoop.induct)
  case (1 pid ids n j)
  show ?case
  proof (cases "j < n")
    case False
    with "1.prems" show ?thesis by (simp add: parameterIndexLoop.simps [of pid ids n j])
  next
    case True
    show ?thesis
    proof (cases "j < length ids \<and> pid = ids ! j")
      case True
      have "parameterIndexLoop pid ids n j = Some j"
        using True \<open>j < n\<close> by (subst parameterIndexLoop.simps) simp
      with "1.prems" have "k = j" by simp
      with \<open>j < n\<close> show ?thesis by simp
    next
      case False
      have "parameterIndexLoop pid ids n j = parameterIndexLoop pid ids n (Suc j)"
        using False \<open>j < n\<close> by (subst parameterIndexLoop.simps) simp
      with "1.prems" have "parameterIndexLoop pid ids n (Suc j) = Some k" by simp
      with "1.IH" [OF \<open>j < n\<close> False] show ?thesis by simp
    qed
  qed
qed

text \<open>The three ways in which getParameterIndex answers.\<close>

lemma getParameterIndex_real:
  "parameterIndexLoop pid (parameterIds m) (parameters_count m) 0 = Some k \<Longrightarrow>
   getParameterIndex pid m = (k, m)"
  by (simp add: getParameterIndex_def)

lemma getParameterIndex_known_shadow:
  "parameterIndexLoop pid (parameterIds m) (parameters_count m) 0 = None \<Longrightarrow>
   fmlookup (notExistParameterId m) pid = Some k \<Longrightarrow>
   getParameterIndex pid m = (k, m)"
  by (simp add: getParameterIndex_def)

lemma getParameterIndex_new_shadow:
  "parameterIndexLoop pid (parameterIds m) (parameters_count m) 0 = None \<Longrightarrow>
   fmlookup (notExistParameterId m) pid = None \<Longrightarrow>
   getParameterIndex pid m =
     (parameters_count m + fcard (fmdom (notExistParameterId m)),
      m\<lparr> notExistParameterId :=
           fmupd pid (parameters_count m + fcard (fmdom (notExistParameterId m)))
             (notExistParameterId m),
         notExistParameterValues :=
           fmupd (parameters_count m + fcard (fmdom (notExistParameterId m))) 0
             (notExistParameterValues m) \<rparr>)"
  by (simp add: getParameterIndex_def Let_def)

lemma getParameterIndex_frame:
  "parameterIds (snd (getParameterIndex pid m)) = parameterIds m"
  "parameters_count (snd (getParameterIndex pid m)) = parameters_count m"
  "parameterValues (snd (getParameterIndex pid m)) = parameterValues m"
  by (simp_all add: getParameterIndex_def Let_def split: option.splits)

lemma shadowIndicesInRange_getParameterIndex:
  assumes "shadowIndicesInRange m"
  shows "shadowIndicesInRange (snd (getParameterIndex pid m))"
proof (cases "parameterIndexLoop pid (parameterIds m) (parameters_count m) 0")
  case (Some k)
  with assms show ?thesis by (simp add: getParameterIndex_real)
next
  case None
  show ?thesis
  proof (cases "fmlookup (notExistParameterId m) pid")
    case (Some k)
    with None assms show ?thesis by (simp add: getParameterIndex_known_shadow)
  next
    case None2: None
    have fresh: "pid |\<notin>| fmdom (notExistParameterId m)"
      using None2 by (rule fmdom_notI)
    have old: "\<And>x y. fmlookup (notExistParameterId m) x = Some y \<Longrightarrow>
        y < parameters_count m + fcard (fmdom (notExistParameterId m))"
      using assms by (simp add: shadowIndicesInRange_def fmpred_iff)
    show ?thesis
      unfolding getParameterIndex_new_shadow [OF None None2]
      using fresh old
      by (auto simp: shadowIndicesInRange_def fmpred_iff fcard_finsert_disjoint less_Suc_eq)
  qed
qed

text \<open>
  For parameters the shadow indices behave as the specification says: an identifier that
  was resolved once resolves to the same index again, and two new unknown identifiers
  receive the next two indices after the ones in use.
\<close>

lemma getParameterIndex_twice:
  "fst (getParameterIndex pid (snd (getParameterIndex pid m))) = fst (getParameterIndex pid m)"
proof (cases "parameterIndexLoop pid (parameterIds m) (parameters_count m) 0")
  case (Some k)
  then show ?thesis by (simp add: getParameterIndex_real)
next
  case None
  show ?thesis
  proof (cases "fmlookup (notExistParameterId m) pid")
    case (Some k)
    with None show ?thesis by (simp add: getParameterIndex_known_shadow)
  next
    case None2: None
    show ?thesis
      unfolding getParameterIndex_new_shadow [OF None None2]
      using None by (simp add: getParameterIndex_def)
  qed
qed

lemma getParameterIndex_two_unknown:
  assumes "parameterIndexLoop pid1 (parameterIds m) (parameters_count m) 0 = None"
    and "parameterIndexLoop pid2 (parameterIds m) (parameters_count m) 0 = None"
    and "fmlookup (notExistParameterId m) pid1 = None"
    and "fmlookup (notExistParameterId m) pid2 = None"
    and "pid1 \<noteq> pid2"
  shows "fst (getParameterIndex pid1 m) = parameters_count m + fcard (fmdom (notExistParameterId m))
    \<and> fst (getParameterIndex pid2 (snd (getParameterIndex pid1 m))) =
        parameters_count m + fcard (fmdom (notExistParameterId m)) + 1"
proof -
  have fresh: "pid1 |\<notin>| fmdom (notExistParameterId m)"
    using assms(3) by (rule fmdom_notI)
  show ?thesis
    unfolding getParameterIndex_new_shadow [OF assms(1) assms(3)]
    using assms(2,4,5) fresh
    by (simp add: getParameterIndex_def Let_def fcard_finsert_disjoint)
qed

text \<open>
  For parts the new index is computed from the property \<open>length\<close> of the dictionary,
  which a dictionary of unknown part identifiers does not have: on a constructed model
  every unknown part identifier resolves to \<^verbatim>\<open>NaN\<close>.
\<close>

lemma getPartIndex_unknown_NaN:
  "partIndexLoop partId (partIds (newCubismModel core)) (parts_count (newCubismModel core)) 0 = None
   \<Longrightarrow> fst (getPartIndex partId (newCubismModel core)) = NaN"
  by (simp add: getPartIndex_def Let_def) (simp add: newCubismModel_def)

text \<open>
  C4.  The claim holds for parameters and fails for parts.  On the model with one
  parameter and one part, the unknown parameters \<open>ParamX\<close> and \<open>ParamY\<close> receive the
  indices 1 and \<open>2\<close>, the first two after the real index 0.  The unknown parts
  \<open>PartX\<close> and \<open>PartY\<close> both receive \<^verbatim>\<open>NaN\<close> instead of 1 and \<open>2\<close>:
  \<^verbatim>\<open>getPartIndex\<close> adds \<^verbatim>\<open>this._notExistPartId.length\<close>, which is
  \<^verbatim>\<open>undefined\<close>, where \<^verbatim>\<open>getParameterIndex\<close> adds
  \<^verbatim>\<open>Object.keys(this._notExistParameterId).length\<close>.
\<close>

theorem getPartIndex_unknown_parts_share_NaN:
  "fst (getParameterIndex ''ParamX'' demoModel) = 1
   \<and> fst (getParameterIndex ''ParamY'' (snd (getParameterIndex ''ParamX'' demoModel))) = 2
   \<and> fst (getPartIndex ''PartX'' demoModel) = NaN
   \<and> fst (getPartIndex ''PartY'' (snd (getPartIndex ''PartX'' demoModel))) = NaN
   \<and> fst (getPartIndex ''PartX'' demoModel) \<noteq> Index 1"
  by (simp add: getPartIndex_def getParameterIndex_def demoModel_def newCubismModel_def
      demoCore_def partIndexLoop.simps parameterIndexLoop.simps fcard_finsert_if)

section \<open>Properties of the drawable colours\<close>

text \<open>
  With the model-wide flag off, \<^verbatim>\<open>getScreenColor\<close> decides by the flag of the
  multiply colour: the flag that \<^verbatim>\<open>setOverwriteFlagForDrawableScreenColors\<close>
  writes has no influence on the result.
\<close>

lemma getScreenColor_after_setOverwriteFlagForDrawableScreenColors:
  assumes "\<not> isOverwrittenModelScreenColors m"
    and "i < length (userMultiplyColors m)" and "i < length (userScreenColors m)"
  shows "andThen (setOverwriteFlagForDrawableScreenColors i b m) (getScreenColor i) =
     (if isOverwritten (userMultiplyColors m ! i)
      then Inr (Color (userScreenColors m ! i))
      else Inr (getDrawableScreenColor i m))"
  using assms
  by (simp add: andThen_def setOverwriteFlagForDrawableScreenColors_def getScreenColor_def
      getOverwriteFlagForModelScreenColors_def getOverwriteFlagForDrawableScreenColors_def
      getDrawableScreenColor_def)

text \<open>
  C5.  The claim fails on the code.  On a constructed model with one drawable whose core
  screen colour is \<open>(0, 0, 0, 0)\<close>, the user screen colour is set to
  \<open>(0.2, 0.4, 0.6, 1)\<close>.  After
  \<^verbatim>\<open>setOverwriteFlagForDrawableScreenColors(0, true)\<close> the method
  \<^verbatim>\<open>getScreenColor(0)\<close> returns the core colour, not the user colour; and with the
  multiply flag of the drawable set, after
  \<^verbatim>\<open>setOverwriteFlagForDrawableScreenColors(0, false)\<close> it returns the user colour,
  not the core colour.  \<^verbatim>\<open>getOverwriteFlagForDrawableScreenColors\<close> reads
  \<^verbatim>\<open>_userMultiplyColors\<close> where the setter writes \<^verbatim>\<open>_userScreenColors\<close>.
\<close>

theorem getScreenColor_follows_multiply_flag:
  "andThen (setScreenColorByRGBA 0 0.2 0.4 0.6 1 demoModel)
     (\<lambda>m1. andThen (setOverwriteFlagForDrawableScreenColors 0 True m1) (getScreenColor 0))
   = Inr \<lparr> R = 0, G = 0, B = 0, A = 0 \<rparr>
   \<and> andThen (setScreenColorByRGBA 0 0.2 0.4 0.6 1 demoModel)
     (\<lambda>m1. andThen (setOverwriteFlagForDrawableMultiplyColors 0 True m1)
     (\<lambda>m2. andThen (setOverwriteFlagForDrawableScreenColors 0 False m2) (getScreenColor 0)))
   = Inr \<lparr> R = 0.2, G = 0.4, B = 0.6, A = 1 \<rparr>"
  by (simp add: andThen_def setScreenColorByRGBA_def setOverwriteFlagForDrawableScreenColors_def
      setOverwriteFlagForDrawableMultiplyColors_def getScreenColor_def
      getOverwriteFlagForModelScreenColors_def getOverwriteFlagForDrawableScreenColors_def
      getDrawableScreenColor_def demoModel_def newCubismModel_def demoCore_def)

section \<open>Properties of the blend step\<close>

subsection \<open>The current value of a parameter\<close>

text \<open>
  The value that \<^verbatim>\<open>getParameterValueById\<close> reads: the stored value of a real or a
  registered shadow parameter, and 0 for an identifier that is registered by the call.
\<close>

lemma getParameterValueById_value:
  "fst (getParameterValueById pid m) =
     (case parameterIndexLoop pid (parameterIds m) (parameters_count m) 0 of
        Some k \<Rightarrow> getParameterValueByIndex k m
      | None \<Rightarrow>
          (case fmlookup (notExistParameterId m) pid of
             Some k \<Rightarrow> getParameterValueByIndex k m
           | None \<Rightarrow> 0))"
  by (simp add: getParameterValueById_def getParameterIndex_def getParameterValueByIndex_def
      Let_def split: option.splits)

lemma snd_getParameterValueById:
  "snd (getParameterValueById pid m) = snd (getParameterIndex pid m)"
  by (simp add: getParameterValueById_def split_beta)


text \<open>
  Registering a shadow parameter does not change the value read for any identifier.
\<close>

lemma getParameterValueById_stable:
  assumes inv: "shadowIndicesInRange m"
  shows "fst (getParameterValueById pid (snd (getParameterIndex pid2 m))) =
         fst (getParameterValueById pid m)"
proof -
  let ?n = "parameters_count m + fcard (fmdom (notExistParameterId m))"
  let ?m' = "m\<lparr> notExistParameterId := fmupd pid2 ?n (notExistParameterId m),
                 notExistParameterValues := fmupd ?n 0 (notExistParameterValues m) \<rparr>"
  consider (same) "snd (getParameterIndex pid2 m) = m"
    | (new) "fmlookup (notExistParameterId m) pid2 = None" "snd (getParameterIndex pid2 m) = ?m'"
  proof (cases "parameterIndexLoop pid2 (parameterIds m) (parameters_count m) 0")
    case (Some k)
    then have "snd (getParameterIndex pid2 m) = m" by (simp add: getParameterIndex_real)
    then show ?thesis by (rule same)
  next
    case None
    show ?thesis
    proof (cases "fmlookup (notExistParameterId m) pid2")
      case (Some k)
      with None have "snd (getParameterIndex pid2 m) = m"
        by (simp add: getParameterIndex_known_shadow)
      then show ?thesis by (rule same)
    next
      case None2: None
      with None have "snd (getParameterIndex pid2 m) = ?m'"
        by (simp add: getParameterIndex_new_shadow)
      with None2 show ?thesis by (rule new)
    qed
  qed
  then show ?thesis
  proof cases
    case same
    then show ?thesis by simp
  next
    case new
    have old: "\<And>x y. fmlookup (notExistParameterId m) x = Some y \<Longrightarrow> y < ?n"
      using inv by (simp add: shadowIndicesInRange_def fmpred_iff)
    show ?thesis
    proof (cases "parameterIndexLoop pid (parameterIds m) (parameters_count m) 0")
      case (Some k)
      then have "k < parameters_count m" by (rule parameterIndexLoop_bound)
      with Some show ?thesis
        unfolding new(2) getParameterValueById_value
        by (simp add: getParameterValueByIndex_def split: option.splits)
    next
      case None
      show ?thesis
      proof (cases "fmlookup (notExistParameterId m) pid")
        case (Some k)
        with new(1) have "pid2 \<noteq> pid" by auto
        moreover have "k < ?n" using Some by (rule old)
        ultimately show ?thesis
          using None Some
          unfolding new(2) getParameterValueById_value
          by (simp add: getParameterValueByIndex_def split: option.splits)
      next
        case None2: None
        with None show ?thesis
          unfolding new(2) getParameterValueById_value
          by (simp add: getParameterValueByIndex_def split: option.splits)
      qed
    qed
  qed
qed

text \<open>The invariant holds after construction and is kept by every method modelled here.\<close>

lemma shadowIndicesInRange_newCubismModel: "shadowIndicesInRange (newCubismModel core)"
  by (simp add: shadowIndicesInRange_def newCubismModel_def)

lemma shadowIndicesInRange_setParameterValueByIndex:
  "shadowIndicesInRange (setParameterValueByIndex i v w m) = shadowIndicesInRange m"
  by (simp add: shadowIndicesInRange_def setParameterValueByIndex_def Let_def split: option.splits)

lemma shadowIndicesInRange_saveParameters:
  "shadowIndicesInRange (saveParameters m) = shadowIndicesInRange m"
  by (simp add: shadowIndicesInRange_def saveParameters_def)

lemma shadowIndicesInRange_loadParameters:
  "shadowIndicesInRange (loadParameters m) = shadowIndicesInRange m"
  by (simp add: shadowIndicesInRange_def loadParameters_def Let_def)

subsection \<open>One entry and the loop\<close>

text \<open>
  The inner loop finds the first parameter of the expression with the given identifier.
\<close>

lemma expressionParameterIndex_find:
  "(case expressionParameterIndex pid ps j of
      None \<Rightarrow> find (\<lambda>p. exp_parameterId p = pid) ps = None
    | Some k \<Rightarrow> j \<le> k \<and> k - j < length ps
                \<and> find (\<lambda>p. exp_parameterId p = pid) ps = Some (ps ! (k - j)))"
proof (induction ps arbitrary: j)
  case Nil
  then show ?case by simp
next
  case (Cons p ps)
  show ?case
  proof (cases "pid = exp_parameterId p")
    case True
    then show ?thesis by simp
  next
    case False
    with Cons.IH [of "Suc j"] show ?thesis
      by (auto split: option.splits simp: Suc_diff_le)
  qed
qed

lemma expressionParameterIndex_None:
  "expressionParameterIndex pid ps 0 = None \<Longrightarrow> find (\<lambda>p. exp_parameterId p = pid) ps = None"
  using expressionParameterIndex_find [of pid ps 0] by simp

lemma expressionParameterIndex_Some:
  "expressionParameterIndex pid ps 0 = Some k \<Longrightarrow>
   find (\<lambda>p. exp_parameterId p = pid) ps = Some (ps ! k)"
  using expressionParameterIndex_find [of pid ps 0] by simp

text \<open>The model after one iteration: at most one shadow parameter was registered.\<close>

lemma snd_blendEntry:
  "snd (blendEntry mo ei e m) =
     (case parameterId e of None \<Rightarrow> m | Some pid \<Rightarrow> snd (getParameterIndex pid m))"
  by (simp add: blendEntry_def getParameterValueById_def split_beta Let_def
      split: option.splits ExpressionBlendType.splits)

lemma shadowIndicesInRange_blendEntry:
  "shadowIndicesInRange m \<Longrightarrow> shadowIndicesInRange (snd (blendEntry mo ei e m))"
  by (simp add: snd_blendEntry shadowIndicesInRange_getParameterIndex split: option.splits)

text \<open>
  What an entry with an identifier becomes, in terms of the value read.  In the blended
  overwrite channel the value read takes the place of the entry's previous overwrite
  value, which the assignment at the head of the iteration has replaced.
\<close>

lemma fst_blendEntry:
  assumes "parameterId e = Some pid"
  shows "fst (blendEntry mo ei e m) =
     (let cur = fst (getParameterValueById pid m);
          (newA, newM, newO) =
            (case find (\<lambda>p. exp_parameterId p = pid) (parameters mo) of
               None \<Rightarrow> (0, 1, cur)
             | Some p \<Rightarrow>
                 (case exp_blendType p of
                    Additive \<Rightarrow> (exp_value p, 1, cur)
                  | Multiply \<Rightarrow> (0, exp_value p, cur)
                  | Overwrite \<Rightarrow> (0, 1, exp_value p)))
      in if ei = 0
         then e\<lparr> additiveValue := newA, multiplyValue := newM, overwriteValue := newO \<rparr>
         else e\<lparr> additiveValue := additiveValue e * (1 - fadeWeight mo) + newA * fadeWeight mo,
                 multiplyValue := multiplyValue e * (1 - fadeWeight mo) + newM * fadeWeight mo,
                 overwriteValue := cur * (1 - fadeWeight mo) + newO * fadeWeight mo \<rparr>)"
proof (cases "expressionParameterIndex pid (parameters mo) 0")
  case None
  note f = expressionParameterIndex_None [OF None]
  show ?thesis
    using assms None
    by (simp add: blendEntry_def f getExpressionParameters_def split_beta Let_def calculateValue_def
        DefaultAdditiveValue_def DefaultMultiplyValue_def)
next
  case (Some k)
  note f = expressionParameterIndex_Some [OF Some]
  show ?thesis
    using assms Some
    by (cases "exp_blendType (parameters mo ! k)";
        simp add: blendEntry_def f getExpressionParameters_def split_beta Let_def
          DefaultAdditiveValue_def DefaultMultiplyValue_def)
qed

text \<open>
  The result for an entry does not depend on the entries processed before it.
\<close>

lemma fst_blendEntry_stable:
  assumes "shadowIndicesInRange m"
  shows "fst (blendEntry mo ei e (snd (blendEntry mo ei x m))) = fst (blendEntry mo ei e m)"
proof (cases "parameterId e")
  case None
  then show ?thesis by (simp add: blendEntry_def)
next
  case (Some pid)
  have "fst (getParameterValueById pid (snd (blendEntry mo ei x m))) =
        fst (getParameterValueById pid m)"
    by (cases "parameterId x")
       (simp_all add: snd_blendEntry getParameterValueById_stable [OF assms])
  then show ?thesis
    by (simp only: fst_blendEntry [OF Some])
qed

lemma blendLoop_nth:
  "shadowIndicesInRange m \<Longrightarrow> i < length xs \<Longrightarrow>
   fst (blendLoop mo ei xs m) ! i = fst (blendEntry mo ei (xs ! i) m)"
proof (induction xs arbitrary: i m)
  case Nil
  then show ?case by simp
next
  case (Cons x xs)
  show ?case
  proof (cases i)
    case 0
    then show ?thesis by (simp add: split_beta Let_def)
  next
    case (Suc k)
    have inv': "shadowIndicesInRange (snd (blendEntry mo ei x m))"
      using Cons.prems(1) by (rule shadowIndicesInRange_blendEntry)
    have "fst (blendLoop mo ei (x # xs) m) ! i =
          fst (blendLoop mo ei xs (snd (blendEntry mo ei x m))) ! k"
      using Suc by (simp add: split_beta Let_def)
    also have "\<dots> = fst (blendEntry mo ei (xs ! k) (snd (blendEntry mo ei x m)))"
      using Cons.IH [OF inv', of k] Cons.prems(2) Suc by simp
    also have "\<dots> = fst (blendEntry mo ei (xs ! k) m)"
      using Cons.prems(1) by (rule fst_blendEntry_stable)
    finally show ?thesis using Suc by simp
  qed
qed


lemma blendLoop_length: "length (fst (blendLoop mo ei xs m)) = length xs"
  by (induction xs arbitrary: m) (simp_all add: split_beta Let_def)


lemma blendLoop_null_entry:
  "i < length xs \<Longrightarrow> parameterId (xs ! i) = None \<Longrightarrow> fst (blendLoop mo ei xs m) ! i = xs ! i"
proof (induction xs arbitrary: i m)
  case Nil
  then show ?case by simp
next
  case (Cons x xs)
  show ?case
  proof (cases i)
    case 0
    with Cons.prems show ?thesis by (simp add: split_beta Let_def blendEntry_def)
  next
    case (Suc k)
    with Cons.prems Cons.IH [of k] show ?thesis by (simp add: split_beta Let_def)
  qed
qed

subsection \<open>The whole call\<close>

text \<open>
  On an available instance the call keeps the expression's parameters, stores the fade
  weight and runs the loop with it on the model as it was before the call.
\<close>

lemma calculateExpressionParameters_available:
  "available q \<Longrightarrow>
   (case calculateExpressionParameters gd ufw m t q acc ei mo of
      (m', q', acc', mo') \<Rightarrow>
        parameters mo' = parameters mo \<and> acc' = fst (blendLoop mo' ei acc m))"
  by (simp add: calculateExpressionParameters_def Let_def split_beta)

text \<open>Facts about the example objects.\<close>

lemma demoModel_inv: "shadowIndicesInRange demoModel"
  unfolding demoModel_def by (rule shadowIndicesInRange_newCubismModel)

lemma demo_hyps:
  "available demoEntry"
  "0 < length demoAccumulator" "1 < length demoAccumulator" "2 < length demoAccumulator"
  "parameterId (demoAccumulator ! 0) = Some ''ParamA''"
  "parameterId (demoAccumulator ! 1) = None"
  "parameterId (demoAccumulator ! 2) = Some ''ParamX''"
  "\<not> available finishedEntry"
  by (simp_all add: demoEntry_def finishedEntry_def demoAccumulator_def)

lemma demo_current:
  "fst (getParameterValueById ''ParamA'' demoModel) = 0"
  "fst (getParameterValueById ''ParamX'' demoModel) = 0"
  by (simp_all add: demoModel_def getParameterValueById_value parameterIndexLoop.simps
      getParameterValueByIndex_def newCubismModel_def demoCore_def)

lemma demo_values:
  "additiveValue (demoAccumulator ! 0) = 0" "multiplyValue (demoAccumulator ! 0) = 1"
  "additiveValue (demoAccumulator ! 2) = 9" "multiplyValue (demoAccumulator ! 2) = 9"
  "find (\<lambda>p. exp_parameterId p = ''ParamA'') (parameters demoExpression) =
     Some \<lparr> exp_parameterId = ''ParamA'', exp_blendType = Additive, exp_value = 1 \<rparr>"
  "find (\<lambda>p. exp_parameterId p = ''ParamX'') (parameters demoExpression) = None"
  by (simp_all add: demoAccumulator_def demoExpression_def)

lemma constantWeight_stored:
  "fadeWeight (snd (snd (snd (calculateExpressionParameters gd (constantWeight x)
      m t demoEntry acc ei mo)))) = x"
  by (simp add: calculateExpressionParameters_def demoEntry_def constantWeight_def
      split_beta Let_def)

text \<open>
  C7.  When \<^verbatim>\<open>isAvailable()\<close> is false, \<^verbatim>\<open>calculateExpressionParameters\<close>
  returns at once: the model, the playback instance with its lifecycle and timing fields,
  every accumulator entry and the expression with its stored fade weight are what they
  were before the call.
\<close>

theorem calculateExpressionParameters_unavailable_noop:
  "\<not> available q \<Longrightarrow>
   calculateExpressionParameters getDuration updateFadeWeight m t q acc expressionIndex mo
     = (m, q, acc, mo)"
  by (simp add: calculateExpressionParameters_def)

text \<open>The finished instance leaves the example accumulator and expression as they are.\<close>

theorem calculateExpressionParameters_unavailable_noop_witness:
  "calculateExpressionParameters noDuration (constantWeight (3/10)) demoModel 7 finishedEntry
     demoAccumulator 0 demoExpression
     = (demoModel, finishedEntry, demoAccumulator, demoExpression)"
  using calculateExpressionParameters_unavailable_noop [OF demo_hyps(8)]
  by simp

text \<open>
  C10.  An accumulator entry whose \<^verbatim>\<open>parameterId\<close> is null is skipped: after the
  call it is the entry it was, with the same additive, multiply and overwrite values,
  whatever the expression index, the fade weight and the availability of the instance;
  the accumulator keeps its length.
\<close>

theorem calculateExpressionParameters_skips_null_parameterId:
  "i < length acc \<Longrightarrow> parameterId (acc ! i) = None \<Longrightarrow>
   (case calculateExpressionParameters getDuration updateFadeWeight m t q acc expressionIndex mo of
      (m', q', acc', mo') \<Rightarrow> length acc' = length acc \<and> acc' ! i = acc ! i)"
  by (simp add: calculateExpressionParameters_def Let_def split_beta blendLoop_length
      blendLoop_null_entry)

text \<open>
  The entry without identifier of the example accumulator, for the first expression and
  for a later one.
\<close>

theorem calculateExpressionParameters_skips_null_parameterId_witness:
  "(case calculateExpressionParameters noDuration (constantWeight (3/10)) demoModel 0 demoEntry
           demoAccumulator 0 demoExpression of
      (m', q', acc', mo') \<Rightarrow> acc' ! 1 = demoAccumulator ! 1)
   \<and> (case calculateExpressionParameters noDuration (constantWeight 1) demoModel 0 demoEntry
           demoAccumulator 1 demoExpression of
      (m', q', acc', mo') \<Rightarrow> acc' ! 1 = demoAccumulator ! 1)"
  using calculateExpressionParameters_skips_null_parameterId [OF demo_hyps(3) demo_hyps(6),
        where getDuration = noDuration and updateFadeWeight = "constantWeight (3/10)"
          and m = demoModel and t = 0 and q = demoEntry and expressionIndex = 0
          and mo = demoExpression]
    calculateExpressionParameters_skips_null_parameterId [OF demo_hyps(3) demo_hyps(6),
        where getDuration = noDuration and updateFadeWeight = "constantWeight 1"
          and m = demoModel and t = 0 and q = demoEntry and expressionIndex = 1
          and mo = demoExpression]
  by (simp add: split_beta)

text \<open>
  C2 (as amended).  For every accumulator entry that has a parameter identifier, a call
  with expression index 0 on an available instance replaces the three channels by values
  that depend neither on the entry's previous channels nor on the fade weight.  If the
  expression references the parameter, they are the triple declared by the first entry of
  the expression with that identifier: Additive gives \<open>(value, 1, current)\<close>, Multiply
  gives \<open>(0, value, current)\<close> and Overwrite gives \<open>(0, 1, value)\<close>.  If it does not,
  they are \<open>(0, 1, current)\<close>.  Here \<open>current\<close> is the model's value of the parameter.
\<close>

theorem calculateExpressionParameters_bootstrap_replaces:
  assumes "available q" and "shadowIndicesInRange m"
    and "i < length acc" and "parameterId (acc ! i) = Some pid"
  shows "case calculateExpressionParameters getDuration updateFadeWeight m t q acc 0 mo of
           (m', q', acc', mo') \<Rightarrow>
             length acc' = length acc \<and> parameterId (acc' ! i) = Some pid \<and>
             (additiveValue (acc' ! i), multiplyValue (acc' ! i), overwriteValue (acc' ! i)) =
               (case find (\<lambda>p. exp_parameterId p = pid) (parameters mo) of
                  None \<Rightarrow> (0, 1, fst (getParameterValueById pid m))
                | Some p \<Rightarrow>
                    (case exp_blendType p of
                       Additive \<Rightarrow> (exp_value p, 1, fst (getParameterValueById pid m))
                     | Multiply \<Rightarrow> (0, exp_value p, fst (getParameterValueById pid m))
                     | Overwrite \<Rightarrow> (0, 1, exp_value p)))"
proof -
  obtain m' q' acc' mo' where
    r: "calculateExpressionParameters getDuration updateFadeWeight m t q acc 0 mo = (m', q', acc', mo')"
    by (cases "calculateExpressionParameters getDuration updateFadeWeight m t q acc 0 mo") auto
  have ps: "parameters mo' = parameters mo" and acc': "acc' = fst (blendLoop mo' 0 acc m)"
    using calculateExpressionParameters_available
      [where q = q and gd = getDuration and ufw = updateFadeWeight and m = m and t = t
         and acc = acc and ei = 0 and mo = mo, OF assms(1)]
    by (simp_all add: r)
  have len: "length acc' = length acc"
    by (simp add: acc' blendLoop_length)
  have nth: "acc' ! i = fst (blendEntry mo' 0 (acc ! i) m)"
    unfolding acc' using assms(2,3) by (rule blendLoop_nth)
  show ?thesis
    unfolding r
    using assms(4) len
    by (simp add: nth fst_blendEntry [OF assms(4)] ps Let_def
        split: option.splits ExpressionBlendType.splits)
qed

text \<open>
  With the expression that adds 1 to \<open>ParamA\<close> as the first expression, the entry of
  \<open>ParamA\<close> becomes \<open>(1, 1, 0)\<close> and the entry of the unreferenced \<open>ParamX\<close> becomes
  \<open>(0, 1, 0)\<close>; 0 is the model's value of both.
\<close>

theorem calculateExpressionParameters_bootstrap_replaces_witness:
  "(case calculateExpressionParameters noDuration (constantWeight (3/10)) demoModel 0 demoEntry
           demoAccumulator 0 demoExpression of
      (m', q', acc', mo') \<Rightarrow>
        (additiveValue (acc' ! 0), multiplyValue (acc' ! 0), overwriteValue (acc' ! 0)) = (1, 1, 0))
   \<and> (case calculateExpressionParameters noDuration (constantWeight (3/10)) demoModel 0 demoEntry
           demoAccumulator 0 demoExpression of
      (m', q', acc', mo') \<Rightarrow>
        (additiveValue (acc' ! 2), multiplyValue (acc' ! 2), overwriteValue (acc' ! 2)) = (0, 1, 0))"
  using calculateExpressionParameters_bootstrap_replaces
      [OF demo_hyps(1) demoModel_inv demo_hyps(2) demo_hyps(5),
        where getDuration = noDuration and updateFadeWeight = "constantWeight (3/10)"
          and t = 0 and mo = demoExpression]
    calculateExpressionParameters_bootstrap_replaces
      [OF demo_hyps(1) demoModel_inv demo_hyps(4) demo_hyps(7),
        where getDuration = noDuration and updateFadeWeight = "constantWeight (3/10)"
          and t = 0 and mo = demoExpression]
  by (simp add: split_beta demo_current demo_values)

text \<open>
  The claim as stated, for every accumulator entry, fails at an entry without identifier:
  with expression index 0 on an available instance its channels stay \<open>(5, 5, 5)\<close>, so
  they are neither reset to \<open>(0, 1, current)\<close> nor independent of what they were.
\<close>

theorem calculateExpressionParameters_bootstrap_null_entry_counterexample:
  "(case calculateExpressionParameters noDuration (constantWeight (3/10)) demoModel 0 demoEntry
           demoAccumulator 0 demoExpression of
      (m', q', acc', mo') \<Rightarrow>
        (additiveValue (acc' ! 1), multiplyValue (acc' ! 1), overwriteValue (acc' ! 1)) = (5, 5, 5))
   \<and> parameterId (demoAccumulator ! 1) = None
   \<and> (5::real) \<noteq> 0"
  by (simp add: calculateExpressionParameters_def demoEntry_def demoAccumulator_def
      demoExpression_def blendEntry_def split_beta Let_def getParameterValueById_def
      getParameterIndex_def parameterIndexLoop.simps demoModel_def newCubismModel_def demoCore_def
      getParameterValueByIndex_def getExpressionParameters_def fcard_finsert_if
      DefaultAdditiveValue_def DefaultMultiplyValue_def calculateValue_def constantWeight_def
      noDuration_def)

text \<open>
  C3 (as amended).  For every accumulator entry that has a parameter identifier and every
  call with an expression index above 0 on an available instance, with \<open>w\<close> the fade
  weight stored by the call: the additive channel becomes \<open>old * (1 - w) + new * w\<close> and
  so does the multiply channel, where \<open>new\<close> is the contribution declared by the first
  entry of the expression with that identifier, or the neutral value (additive 0,
  multiply 1) when the expression does not reference the parameter.  At \<open>w = 0\<close> both
  channels keep their old value and at \<open>w = 1\<close> both equal the new value.
\<close>

theorem calculateExpressionParameters_blends_additive_and_multiply:
  assumes "available q" and "shadowIndicesInRange m" and "0 < expressionIndex"
    and "i < length acc" and "parameterId (acc ! i) = Some pid"
  shows "case calculateExpressionParameters getDuration updateFadeWeight m t q acc
                expressionIndex mo of
           (m', q', acc', mo') \<Rightarrow>
             (let w = fadeWeight mo';
                  (newAdditive, newMultiply) =
                    (case find (\<lambda>p. exp_parameterId p = pid) (parameters mo) of
                       None \<Rightarrow> (0, 1)
                     | Some p \<Rightarrow>
                         (case exp_blendType p of
                            Additive \<Rightarrow> (exp_value p, 1)
                          | Multiply \<Rightarrow> (0, exp_value p)
                          | Overwrite \<Rightarrow> (0, 1)))
              in additiveValue (acc' ! i) = additiveValue (acc ! i) * (1 - w) + newAdditive * w
               \<and> multiplyValue (acc' ! i) = multiplyValue (acc ! i) * (1 - w) + newMultiply * w
               \<and> (w = 0 \<longrightarrow> additiveValue (acc' ! i) = additiveValue (acc ! i)
                            \<and> multiplyValue (acc' ! i) = multiplyValue (acc ! i))
               \<and> (w = 1 \<longrightarrow> additiveValue (acc' ! i) = newAdditive
                            \<and> multiplyValue (acc' ! i) = newMultiply))"
proof -
  obtain m' q' acc' mo' where
    r: "calculateExpressionParameters getDuration updateFadeWeight m t q acc expressionIndex mo
          = (m', q', acc', mo')"
    by (cases "calculateExpressionParameters getDuration updateFadeWeight m t q acc
          expressionIndex mo") auto
  have ps: "parameters mo' = parameters mo"
    and acc': "acc' = fst (blendLoop mo' expressionIndex acc m)"
    using calculateExpressionParameters_available
      [where q = q and gd = getDuration and ufw = updateFadeWeight and m = m and t = t
         and acc = acc and ei = expressionIndex and mo = mo, OF assms(1)]
    by (simp_all add: r)
  have nth: "acc' ! i = fst (blendEntry mo' expressionIndex (acc ! i) m)"
    unfolding acc' using assms(2,4) by (rule blendLoop_nth)
  show ?thesis
    unfolding r
    using assms(3)
    by (simp add: nth fst_blendEntry [OF assms(5)] ps Let_def
        split: option.splits ExpressionBlendType.splits)
qed

text \<open>
  With the expression that adds 1 to \<open>ParamA\<close> as the second expression and fade weight
  \<open>3/10\<close>, the entry of \<open>ParamA\<close> goes from \<open>(0, 1)\<close> to \<open>(3/10, 1)\<close> and the entry
  of the unreferenced \<open>ParamX\<close> from \<open>(9, 9)\<close> to \<open>(63/10, 66/10)\<close>; with fade weight
  0 the latter stays \<open>(9, 9)\<close> and with fade weight 1 it becomes \<open>(0, 1)\<close>.
\<close>

theorem calculateExpressionParameters_blends_additive_and_multiply_witness:
  "(case calculateExpressionParameters noDuration (constantWeight (3/10)) demoModel 0 demoEntry
           demoAccumulator 1 demoExpression of
      (m', q', acc', mo') \<Rightarrow>
        additiveValue (acc' ! 0) = 3/10 \<and> multiplyValue (acc' ! 0) = 1
        \<and> additiveValue (acc' ! 2) = 63/10 \<and> multiplyValue (acc' ! 2) = 66/10)
   \<and> (case calculateExpressionParameters noDuration (constantWeight 0) demoModel 0 demoEntry
           demoAccumulator 1 demoExpression of
      (m', q', acc', mo') \<Rightarrow> additiveValue (acc' ! 2) = 9 \<and> multiplyValue (acc' ! 2) = 9)
   \<and> (case calculateExpressionParameters noDuration (constantWeight 1) demoModel 0 demoEntry
           demoAccumulator 1 demoExpression of
      (m', q', acc', mo') \<Rightarrow> additiveValue (acc' ! 2) = 0 \<and> multiplyValue (acc' ! 2) = 1)"
proof -
  have one: "0 < (1::nat)" by simp
  show ?thesis
    using calculateExpressionParameters_blends_additive_and_multiply
        [OF demo_hyps(1) demoModel_inv one demo_hyps(2) demo_hyps(5),
          where getDuration = noDuration and updateFadeWeight = "constantWeight (3/10)"
            and t = 0 and mo = demoExpression]
      calculateExpressionParameters_blends_additive_and_multiply
        [OF demo_hyps(1) demoModel_inv one demo_hyps(4) demo_hyps(7),
          where getDuration = noDuration and updateFadeWeight = "constantWeight (3/10)"
            and t = 0 and mo = demoExpression]
      calculateExpressionParameters_blends_additive_and_multiply
        [OF demo_hyps(1) demoModel_inv one demo_hyps(4) demo_hyps(7),
          where getDuration = noDuration and updateFadeWeight = "constantWeight 0"
            and t = 0 and mo = demoExpression]
      calculateExpressionParameters_blends_additive_and_multiply
        [OF demo_hyps(1) demoModel_inv one demo_hyps(4) demo_hyps(7),
          where getDuration = noDuration and updateFadeWeight = "constantWeight 1"
            and t = 0 and mo = demoExpression]
    by (simp add: split_beta Let_def constantWeight_stored demo_values)
qed

text \<open>
  The claim as stated fails in two ways on one call: a second expression that references
  nothing, with fade weight \<open>3/10\<close>, on the example accumulator.  The overwrite channel of
  \<open>ParamA\<close> had the old value \<open>1/2\<close> and the model's value is 0: the call leaves 0,
  not \<open>1/2 * (1 - 3/10) + 0 * (3/10) = 7/20\<close>.  The entry without identifier keeps its
  additive value 5 instead of \<open>5 * (1 - 3/10) + 0 * (3/10) = 7/2\<close>.
\<close>

theorem calculateExpressionParameters_blend_every_channel_counterexample:
  "(case calculateExpressionParameters noDuration (constantWeight (3/10)) demoModel 0 demoEntry
           demoAccumulator 1 emptyExpression of
      (m', q', acc', mo') \<Rightarrow>
        fadeWeight mo' = 3/10
        \<and> overwriteValue (acc' ! 0) = 0
        \<and> overwriteValue (acc' ! 0)
            \<noteq> overwriteValue (demoAccumulator ! 0) * (1 - 3/10)
              + fst (getParameterValueById ''ParamA'' demoModel) * (3/10)
        \<and> additiveValue (acc' ! 1) = 5
        \<and> additiveValue (acc' ! 1) \<noteq> additiveValue (demoAccumulator ! 1) * (1 - 3/10) + 0 * (3/10))"
  by (simp add: calculateExpressionParameters_def demoEntry_def demoAccumulator_def
      emptyExpression_def blendEntry_def split_beta Let_def getParameterValueById_def
      getParameterIndex_def parameterIndexLoop.simps demoModel_def newCubismModel_def demoCore_def
      getParameterValueByIndex_def getExpressionParameters_def fcard_finsert_if
      DefaultAdditiveValue_def DefaultMultiplyValue_def calculateValue_def constantWeight_def
      noDuration_def)

section \<open>Properties of parsing\<close>

text \<open>
  The loop keeps the parameters that were there and appends one parameter for each
  entry, in order; the appended blend types are determined by the \<^verbatim>\<open>Blend\<close> fields.
\<close>

lemma parseParameters_blendTypes:
  "map exp_blendType (parseParameters js ps) =
     map exp_blendType ps
     @ map (\<lambda>e. if Blend e = Some ''Multiply'' then Multiply
                else if Blend e = Some ''Overwrite'' then Overwrite
                else Additive) js"
  by (induction js arbitrary: ps) (simp_all add: Let_def)

text \<open>
  C8.  \<^verbatim>\<open>parse\<close> turns every entry of \<^verbatim>\<open>Parameters\<close> into one expression
  parameter, in order and after the parameters already present, and raises no error.  The
  blend type made from an entry is Multiply if the entry's \<^verbatim>\<open>Blend\<close> is
  \<open>Multiply\<close>, Overwrite if it is \<open>Overwrite\<close>, and Additive in every other case: an
  absent field, \<open>Add\<close>, or any other string.
\<close>

theorem parse_blend_defaults_to_Additive:
  "Parameters json = Some entries \<Longrightarrow>
   map exp_blendType (parameters (parse (Some json) mo)) =
     map exp_blendType (parameters mo)
     @ map (\<lambda>e. if Blend e = Some ''Multiply'' then Multiply
                else if Blend e = Some ''Overwrite'' then Overwrite
                else Additive) entries"
  by (simp add: parse_def parseParameters_blendTypes)

lemma demoJSON_Parameters:
  "Parameters demoJSON = Some
     [\<lparr> Id_json = ''ParamA'', Value = 1, Blend = Some ''Add'' \<rparr>,
      \<lparr> Id_json = ''ParamB'', Value = 2, Blend = None \<rparr>,
      \<lparr> Id_json = ''ParamC'', Value = 3, Blend = Some ''Multiply'' \<rparr>,
      \<lparr> Id_json = ''ParamD'', Value = 4, Blend = Some ''Overwrite'' \<rparr>,
      \<lparr> Id_json = ''ParamE'', Value = 5, Blend = Some ''Screen'' \<rparr>]"
  by (simp add: demoJSON_def)

text \<open>
  The five entries of the example file: \<open>Add\<close>, no field, \<open>Multiply\<close>, \<open>Overwrite\<close>
  and the unknown \<open>Screen\<close>.
\<close>

theorem parse_blend_defaults_to_Additive_witness:
  "map exp_blendType (parameters (parse (Some demoJSON) emptyExpression)) =
     [Additive, Additive, Multiply, Overwrite, Additive]"
  using parse_blend_defaults_to_Additive [OF demoJSON_Parameters, of emptyExpression]
  by (simp add: emptyExpression_def)

section \<open>Properties of CubismMoc\<close>

text \<open>
  C9.  \<^verbatim>\<open>CubismMoc.create(mocBytes, true)\<close> throws the error
  \<open>Inconsistent MOC3.\<close> whenever \<^verbatim>\<open>hasMocConsistency(mocBytes)\<close> is false, and then
  returns no \<^verbatim>\<open>CubismMoc\<close>.  When the check passes or is not asked for, and the core
  builds a Moc from the bytes, \<^verbatim>\<open>create\<close> returns a \<^verbatim>\<open>CubismMoc\<close> that holds
  this Moc and whose \<^verbatim>\<open>getMocVersion()\<close> is the version that the core reports for
  the Moc and the bytes.
\<close>

theorem create_checks_consistency_and_records_version:
  "(\<not> hasMocConsistency core mocBytes
      \<longrightarrow> create core mocBytes True = Inl (Error ''Inconsistent MOC3.''))
   \<and> ((hasMocConsistency core mocBytes \<or> \<not> shouldCheckMocConsistency)
        \<and> Moc_fromArrayBuffer core mocBytes = Some mc
      \<longrightarrow> (\<exists>cubismMoc. create core mocBytes shouldCheckMocConsistency = Inr cubismMoc
              \<and> moc cubismMoc = mc
              \<and> getMocVersion cubismMoc = Version_csmGetMocVersion core mc mocBytes))"
  by (auto simp: create_def getMocVersion_def)

lemma demoLibrary_facts:
  "\<not> hasMocConsistency demoLibrary [2]" "hasMocConsistency demoLibrary [1]"
  "Moc_fromArrayBuffer demoLibrary [1] = Some 7" "Moc_fromArrayBuffer demoLibrary [2] = Some 7"
  "Version_csmGetMocVersion demoLibrary 7 [1] = 5" "Version_csmGetMocVersion demoLibrary 7 [2] = 5"
  by (simp_all add: demoLibrary_def hasMocConsistency_def)

text \<open>
  The inconsistent buffer \<open>[2]\<close> is refused when the check is asked for and accepted
  when it is not; the consistent buffer \<open>[1]\<close> is accepted with the check.
\<close>

theorem create_checks_consistency_and_records_version_witness:
  "create demoLibrary [2] True = Inl (Error ''Inconsistent MOC3.'')
   \<and> map_sum id getMocVersion (create demoLibrary [1] True) = Inr 5
   \<and> map_sum id getMocVersion (create demoLibrary [2] False) = Inr 5"
  using create_checks_consistency_and_records_version
          [of demoLibrary "[2]" True 7]
    create_checks_consistency_and_records_version
          [of demoLibrary "[1]" True 7]
    create_checks_consistency_and_records_version
          [of demoLibrary "[2]" False 7]
    demoLibrary_facts
  by auto

end
